theory Spec2Isabelle
  imports Complex_Main "HOL-Library.Word"
begin

section \<open>JavaScript strings\<close>

text \<open>
  A JavaScript string is a sequence of 16-bit code units, and \<open>length\<close> counts code
  units. The messages the services produce are fixed ASCII texts; they are kept as HOL
  strings.
\<close>

type_synonym code_unit = "16 word"
type_synonym jsstring = "code_unit list"

text \<open>
  \<open>String.prototype.trim\<close> removes the ECMAScript WhiteSpace and LineTerminator code
  points from both ends: TAB, LF, VT, FF, CR, SPACE, NBSP, U+1680, U+2000..U+200A, U+2028,
  U+2029, U+202F, U+205F, U+3000 and U+FEFF. All of them are single code units.
\<close>

definition isWhiteSpace :: "code_unit \<Rightarrow> bool" where
  "isWhiteSpace c \<longleftrightarrow>
     c = 0x0009 \<or> c = 0x000A \<or> c = 0x000B \<or> c = 0x000C \<or> c = 0x000D \<or> c = 0x0020 \<or>
     c = 0x00A0 \<or> c = 0x1680 \<or> (0x2000 \<le> c \<and> c \<le> 0x200A) \<or> c = 0x2028 \<or>
     c = 0x2029 \<or> c = 0x202F \<or> c = 0x205F \<or> c = 0x3000 \<or> c = 0xFEFF"

definition trim :: "jsstring \<Rightarrow> jsstring" where
  "trim s = rev (dropWhile isWhiteSpace (rev (dropWhile isWhiteSpace s)))"

text \<open>An ASCII literal as a JavaScript string.\<close>

definition js :: "string \<Rightarrow> jsstring" where
  "js s = map (\<lambda>c. of_nat (of_char c)) s"

section \<open>JavaScript numbers\<close>

text \<open>
  A JavaScript number is an IEEE 754 double. Counts, lengths and identifiers are integers
  far below \<open>2^53\<close>, which doubles hold exactly: they are modelled as \<open>nat\<close> and
  \<open>int\<close>. The result of an addition, a multiplication or a division is the exact
  result rounded to the nearest double, ties to even: \<open>double x\<close> for the exact result
  \<open>x\<close>. A double has a significand of 53 bits and an exponent of at least -1022 (below
  that the numbers are subnormal and share the spacing \<open>2^-1074\<close>). Results of magnitude
  \<open>2^1024\<close> and more (\<open>Infinity\<close>) are outside the model.
\<close>

definition pow2 :: "int \<Rightarrow> real" where
  "pow2 k = (if 0 \<le> k then 2 ^ nat k else 1 / 2 ^ nat (- k))"

function halvings :: "real \<Rightarrow> int" where
  "halvings x = (if 2 \<le> x then halvings (x / 2) + 1 else 0)"
  by pat_completeness auto
termination
proof (relation "measure (\<lambda>x. nat \<lfloor>x\<rfloor>)")
  show "wf (measure (\<lambda>x::real. nat \<lfloor>x\<rfloor>))"
    by simp
next
  fix x :: real
  assume "2 \<le> x"
  then have "x / 2 \<le> x - 1"
    by simp
  then have "\<lfloor>x / 2\<rfloor> \<le> \<lfloor>x - 1\<rfloor>"
    by (rule floor_mono)
  moreover from \<open>2 \<le> x\<close> have "2 \<le> \<lfloor>x\<rfloor>"
    by (simp add: le_floor_iff)
  ultimately show "(x / 2, x) \<in> measure (\<lambda>x. nat \<lfloor>x\<rfloor>)"
    by simp
qed

function doublings :: "real \<Rightarrow> int" where
  "doublings x = (if 0 < x \<and> x < 1 then doublings (2 * x) + 1 else 0)"
  by pat_completeness auto
termination
proof (relation "measure (\<lambda>x. nat \<lceil>1 / x\<rceil>)")
  show "wf (measure (\<lambda>x::real. nat \<lceil>1 / x\<rceil>))"
    by simp
next
  fix x :: real
  assume x: "0 < x \<and> x < 1"
  define y where "y = 1 / x"
  from x have "1 < y"
    by (simp add: y_def)
  then have c: "2 \<le> \<lceil>y\<rceil>"
    by (simp add: le_ceiling_iff)
  define r where "r = real_of_int \<lceil>y\<rceil>"
  have "y \<le> r"
    unfolding r_def by (rule le_of_int_ceiling)
  moreover from c have "2 \<le> r"
    unfolding r_def by linarith
  ultimately have "y / 2 \<le> r - 1"
    by linarith
  then have "y / 2 \<le> real_of_int (\<lceil>y\<rceil> - 1)"
    by (simp add: r_def)
  then have "\<lceil>y / 2\<rceil> \<le> \<lceil>y\<rceil> - 1"
    by (simp only: ceiling_le_iff)
  with c have less: "nat \<lceil>y / 2\<rceil> < nat \<lceil>y\<rceil>"
    by linarith
  have "1 / (2 * x) = y / 2"
    by (simp add: y_def)
  with less have "nat \<lceil>1 / (2 * x)\<rceil> < nat \<lceil>1 / x\<rceil>"
    by (simp only: y_def)
  then show "(2 * x, x) \<in> measure (\<lambda>x. nat \<lceil>1 / x\<rceil>)"
    by (simp only: in_measure)
qed

text \<open>
  \<open>exponent x\<close> is the \<open>e\<close> with \<open>2^e \<le> x < 2^(e+1)\<close>, for a positive \<open>x\<close>.
\<close>

definition exponent :: "real \<Rightarrow> int" where
  "exponent x = (if x < 1 then - doublings x else halvings x)"

text \<open>The integer nearest to \<open>r\<close>, the even one of two that are equally near.\<close>

definition roundTiesToEven :: "real \<Rightarrow> int" where
  "roundTiesToEven r =
     (let n = \<lfloor>r\<rfloor>; d = r - of_int n
      in if d < 1 / 2 then n else if 1 / 2 < d then n + 1 else if even n then n else n + 1)"

text \<open>The double nearest to \<open>x\<close>.\<close>

definition double :: "real \<Rightarrow> real" where
  "double x =
     (if x = 0 then 0
      else let a = \<bar>x\<bar>; q = pow2 (max (exponent a) (- 1022) - 52)
           in sgn x * (of_int (roundTiesToEven (a / q)) * q))"

text \<open>Decimal text of an integer, as a template literal produces it:\<close>

definition digit_char :: "nat \<Rightarrow> char" where
  "digit_char d = ''0123456789'' ! d"

fun string_of_nat :: "nat \<Rightarrow> string" where
  "string_of_nat n =
     (if n < 10 then [digit_char n] else string_of_nat (n div 10) @ [digit_char (n mod 10)])"

definition string_of_int :: "int \<Rightarrow> string" where
  "string_of_int i = (if i < 0 then CHR ''-'' # string_of_nat (nat (- i)) else string_of_nat (nat i))"

section \<open>JSON values and the interfaces of models/nlp.model.ts\<close>

datatype json =
    JNull
  | JBool bool
  | JNumber real
  | JString jsstring
  | JArray "json list"
  | JObject "(string \<times> json) list"

definition is_string :: "json option \<Rightarrow> bool" where
  "is_string v = (case v of Some (JString _) \<Rightarrow> True | _ \<Rightarrow> False)"

definition is_number :: "json option \<Rightarrow> bool" where
  "is_number v = (case v of Some (JNumber _) \<Rightarrow> True | _ \<Rightarrow> False)"

text \<open>
  A TypeScript interface is a structural type: a value belongs to it when it is an object
  that has every declared property, under the declared name, with a value of the declared
  type.
  \<^verbatim>\<open>export interface Change { type: string; description: string; }\<close>
\<close>

definition is_Change :: "json \<Rightarrow> bool" where
  "is_Change j =
     (case j of
        JObject fs \<Rightarrow> is_string (map_of fs ''type'') \<and> is_string (map_of fs ''description'')
      | _ \<Rightarrow> False)"

text \<open>
  \<^verbatim>\<open>export interface RefinementResult { original_text: string; refined_text: string;
    changes_made: Change[]; confidence_score: number; processing_time: number; }\<close>
\<close>

definition is_RefinementResult :: "json \<Rightarrow> bool" where
  "is_RefinementResult j =
     (case j of
        JObject fs \<Rightarrow>
          is_string (map_of fs ''original_text'') \<and>
          is_string (map_of fs ''refined_text'') \<and>
          (case map_of fs ''changes_made'' of
             Some (JArray cs) \<Rightarrow> list_all is_Change cs
           | _ \<Rightarrow> False) \<and>
          is_number (map_of fs ''confidence_score'') \<and>
          is_number (map_of fs ''processing_time'')
      | _ \<Rightarrow> False)"

text \<open>
  The shape the specification gives for the same value, in its own words:
  \<open>(original_text, refined_text, changes: ordered list of Change{type, description},
  confidence_score \<in> [0,1], processing_time)\<close>.
\<close>

definition spec_RefinementResult :: "json \<Rightarrow> bool" where
  "spec_RefinementResult j =
     (case j of
        JObject fs \<Rightarrow>
          is_string (map_of fs ''original_text'') \<and>
          is_string (map_of fs ''refined_text'') \<and>
          (case map_of fs ''changes'' of
             Some (JArray cs) \<Rightarrow> list_all is_Change cs
           | _ \<Rightarrow> False) \<and>
          (case map_of fs ''confidence_score'' of
             Some (JNumber c) \<Rightarrow> 0 \<le> c \<and> c \<le> 1
           | _ \<Rightarrow> False) \<and>
          is_number (map_of fs ''processing_time'')
      | _ \<Rightarrow> False)"

text \<open>The typed view of the same interfaces, as the services use them.\<close>

record Change =
  type :: jsstring
  description :: jsstring

record RefinementResult =
  original_text :: jsstring
  refined_text :: jsstring
  changes_made :: "Change list"
  confidence_score :: real
  processing_time :: real

record RefineTextRequest =
  text' :: jsstring
  use_glossary :: bool
  novel_id :: "int option"

section \<open>ApiService (services/api.ts)\<close>

text \<open>
  What \<open>HttpClient\<close> hands to \<open>handleError\<close>: the \<open>error\<close> property is an
  \<open>ErrorEvent\<close> with its message for a client-side failure, otherwise the body the
  server sent (of which only \<open>detail\<close> is read), or nothing.
\<close>

datatype error_body = ErrorEvent jsstring | ServerBody "jsstring option" | NoBody

record HttpErrorResponse =
  error :: error_body
  message :: jsstring
  status :: nat

definition handleError :: "HttpErrorResponse \<Rightarrow> jsstring" where
  "handleError e =
     (case error e of
        ErrorEvent m \<Rightarrow> js ''Client Error: '' @ m
      | ServerBody (Some d) \<Rightarrow>
          (if d \<noteq> [] then d
           else if message e \<noteq> [] then message e
           else js ''Server Error Code: '' @ js (string_of_nat (status e)) @ [0x000A] @
                js ''Message: '' @ message e)
      | _ \<Rightarrow>
          (if message e \<noteq> [] then message e
           else js ''Server Error Code: '' @ js (string_of_nat (status e)) @ [0x000A] @
                js ''Message: '' @ message e))"

text \<open>
  A request as \<open>HttpClient\<close> sends it. \<open>json_headers\<close> says that \<open>httpOptions\<close>
  (the JSON content type) was passed.
\<close>

datatype http_method = GET | POST | PUT | DELETE

record 'b http_request =
  verb :: http_method
  url :: string
  json_headers :: bool
  params :: "(string \<times> json) list option"
  body :: "'b option"

text \<open>
  The observable \<open>HttpClient\<close> returns is cold: every subscription sends the request,
  and it either emits one response or fails. The server is a function of the requests
  sent so far and the request at hand; the state threaded through the services is the
  list of requests sent. An observable of the services is modelled by what it delivers to its
  subscriber: \<open>Inr\<close> the value passed to \<open>next\<close>, or \<open>Inl\<close> the message of the
  \<open>Error\<close> passed to \<open>error\<close>.
\<close>

datatype 'a http_outcome = Response 'a | Failure HttpErrorResponse

type_synonym ('b, 'a) backend = "'b http_request list \<Rightarrow> 'b http_request \<Rightarrow> 'a http_outcome"

definition subscribe ::
  "('b, 'a) backend \<Rightarrow> 'b http_request \<Rightarrow> 'b http_request list \<Rightarrow>
   'a http_outcome \<times> 'b http_request list" where
  "subscribe backend req sent = (backend sent req, sent @ [req])"

definition baseUrl :: string where
  "baseUrl = ''http://localhost:8000/api''"

text \<open>
  \<open>get\<close>: \<open>this.http.get(url, options).pipe(retry(1), catchError(this.handleError))\<close>.
  \<open>retry(1)\<close> subscribes to the source once more when it fails; only the failure of
  the second subscription reaches \<open>catchError\<close>.
\<close>

definition ApiService_get ::
  "('b, 'a) backend \<Rightarrow> string \<Rightarrow> (string \<times> json) list option \<Rightarrow> 'b http_request list \<Rightarrow>
   (jsstring + 'a) \<times> 'b http_request list" where
  "ApiService_get backend endpoint ps sent =
     (let req = \<lparr> verb = GET, url = baseUrl @ endpoint, json_headers = True,
                   params = ps, body = None \<rparr>
      in case subscribe backend req sent of
           (Response v, sent1) \<Rightarrow> (Inr v, sent1)
         | (Failure e1, sent1) \<Rightarrow>
             (case subscribe backend req sent1 of
                (Response v, sent2) \<Rightarrow> (Inr v, sent2)
              | (Failure e2, sent2) \<Rightarrow> (Inl (handleError e2), sent2)))"

text \<open>\<open>post\<close>, \<open>put\<close>, \<open>delete\<close> and \<open>upload\<close>: one subscription, then \<open>catchError\<close>.\<close>

definition once ::
  "('b, 'a) backend \<Rightarrow> 'b http_request \<Rightarrow> 'b http_request list \<Rightarrow>
   (jsstring + 'a) \<times> 'b http_request list" where
  "once backend req sent =
     (case subscribe backend req sent of
        (Response v, sent1) \<Rightarrow> (Inr v, sent1)
      | (Failure e, sent1) \<Rightarrow> (Inl (handleError e), sent1))"

definition ApiService_post ::
  "('b, 'a) backend \<Rightarrow> string \<Rightarrow> 'b \<Rightarrow> 'b http_request list \<Rightarrow>
   (jsstring + 'a) \<times> 'b http_request list" where
  "ApiService_post backend endpoint data sent =
     once backend \<lparr> verb = POST, url = baseUrl @ endpoint, json_headers = True,
                     params = None, body = Some data \<rparr> sent"

definition ApiService_put ::
  "('b, 'a) backend \<Rightarrow> string \<Rightarrow> 'b \<Rightarrow> 'b http_request list \<Rightarrow>
   (jsstring + 'a) \<times> 'b http_request list" where
  "ApiService_put backend endpoint data sent =
     once backend \<lparr> verb = PUT, url = baseUrl @ endpoint, json_headers = True,
                     params = None, body = Some data \<rparr> sent"

definition ApiService_delete ::
  "('b, 'a) backend \<Rightarrow> string \<Rightarrow> 'b http_request list \<Rightarrow>
   (jsstring + 'a) \<times> 'b http_request list" where
  "ApiService_delete backend endpoint sent =
     once backend \<lparr> verb = DELETE, url = baseUrl @ endpoint, json_headers = True,
                     params = None, body = None \<rparr> sent"

definition ApiService_upload ::
  "('b, 'a) backend \<Rightarrow> string \<Rightarrow> 'b \<Rightarrow> 'b http_request list \<Rightarrow>
   (jsstring + 'a) \<times> 'b http_request list" where
  "ApiService_upload backend endpoint formData sent =
     once backend \<lparr> verb = POST, url = baseUrl @ endpoint, json_headers = False,
                     params = None, body = Some formData \<rparr> sent"

section \<open>NlpService (services/nlp.ts)\<close>

text \<open>The result object \<open>{ valid, errors }\<close> of the two validators.\<close>

record validation =
  valid :: bool
  errors :: "string list"

text \<open>
  \<open>validateTextForProcessing(text)\<close>. The parameter is typed \<open>string\<close>, so \<open>!text\<close>
  holds exactly for the empty string. The three checks run in the order of the source and
  each pushes its message.
\<close>

definition validateTextForProcessing :: "jsstring \<Rightarrow> validation" where
  "validateTextForProcessing text =
     (let errors = [];
          errors = (if text = [] \<or> length (trim text) = 0
                    then errors @ [''Text cannot be empty''] else errors);
          errors = (if length text > 50000
                    then errors @ [''Text is too long (maximum 50,000 characters)''] else errors);
          errors = (if length text < 10
                    then errors @ [''Text is too short (minimum 10 characters)''] else errors)
      in \<lparr> valid = (length errors = 0), errors = errors \<rparr>)"

definition refineText ::
  "(RefineTextRequest, RefinementResult) backend \<Rightarrow> RefineTextRequest \<Rightarrow>
   RefineTextRequest http_request list \<Rightarrow>
   (jsstring + RefinementResult) \<times> RefineTextRequest http_request list" where
  "refineText backend request sent = ApiService_post backend ''/nlp/refine-text'' request sent"

text \<open>
  \<open>quickRefine(text, novelId?)\<close>. The optional number is \<open>None\<close> when the argument is
  left out; \<open>!!novelId\<close> holds for a number other than 0.
\<close>

definition quickRefine ::
  "(RefineTextRequest, RefinementResult) backend \<Rightarrow> jsstring \<Rightarrow> int option \<Rightarrow>
   RefineTextRequest http_request list \<Rightarrow>
   (jsstring + RefinementResult) \<times> RefineTextRequest http_request list" where
  "quickRefine backend txt novelId sent =
     (let request = \<lparr> text' = txt,
                       use_glossary = (case novelId of None \<Rightarrow> False | Some n \<Rightarrow> n \<noteq> 0),
                       novel_id = novelId \<rparr>
      in refineText backend request sent)"

definition previewRefinement ::
  "(RefineTextRequest, RefinementResult) backend \<Rightarrow> jsstring \<Rightarrow> int option \<Rightarrow>
   RefineTextRequest http_request list \<Rightarrow>
   (jsstring + RefinementResult) \<times> RefineTextRequest http_request list" where
  "previewRefinement backend txt novelId sent = quickRefine backend txt novelId sent"

section \<open>Arrays\<close>

text \<open>
  \<open>Array.prototype.sort(compareFn)\<close> is stable: it orders the elements by the sign of
  \<open>compareFn\<close> and leaves elements that compare equal in their order. It is modelled by
  insertion from the right.
\<close>

fun insert_sorted :: "('a \<Rightarrow> 'a \<Rightarrow> int) \<Rightarrow> 'a \<Rightarrow> 'a list \<Rightarrow> 'a list" where
  "insert_sorted compareFn x [] = [x]"
| "insert_sorted compareFn x (y # ys) =
     (if compareFn x y \<le> 0 then x # y # ys else y # insert_sorted compareFn x ys)"

definition Array_sort :: "('a \<Rightarrow> 'a \<Rightarrow> int) \<Rightarrow> 'a list \<Rightarrow> 'a list" where
  "Array_sort compareFn xs = foldr (insert_sorted compareFn) xs []"

text \<open>
  \<open>Array.prototype.slice(start, end)\<close> on integers: a negative index counts from the end
  of the array, and both indices are clamped to the array.
\<close>

definition relative_index :: "int \<Rightarrow> nat \<Rightarrow> nat" where
  "relative_index i len = (if i < 0 then nat (max (int len + i) 0) else min (nat i) len)"

definition Array_slice :: "int \<Rightarrow> int \<Rightarrow> 'a list \<Rightarrow> 'a list" where
  "Array_slice start end' xs =
     (let k = relative_index start (length xs);
          final = relative_index end' (length xs)
      in take (final - k) (drop k xs))"

section \<open>GlossaryService (models/glossary.model.ts, services/glossary.ts)\<close>

record GlossaryTermCreate =
  novel_id :: int
  original_term :: jsstring
  preferred_term :: jsstring
  term_type :: jsstring
  context' :: "jsstring option"

record GlossaryTerm =
  id' :: int
  novel_id :: int
  original_term :: jsstring
  preferred_term :: jsstring
  term_type :: jsstring
  context' :: "jsstring option"
  frequency :: int
  is_active :: bool
  created_at :: jsstring
  updated_at :: jsstring

text \<open>
  \<open>getTerms(novelId, termType?, activeOnly = true)\<close>: the query parameters carry
  \<open>term_type\<close> only for a non-empty \<open>termType\<close>.
\<close>

definition getTerms ::
  "('b, GlossaryTerm list) backend \<Rightarrow> int \<Rightarrow> jsstring option \<Rightarrow> bool \<Rightarrow> 'b http_request list \<Rightarrow>
   (jsstring + GlossaryTerm list) \<times> 'b http_request list" where
  "getTerms backend novelId termType activeOnly sent =
     (let ps = [(''active_only'', JBool activeOnly)];
          ps = (case termType of
                  Some ty \<Rightarrow> if ty \<noteq> [] then ps @ [(''term_type'', JString ty)] else ps
                | None \<Rightarrow> ps)
      in ApiService_get backend (''/glossary/terms/'' @ string_of_int novelId) (Some ps) sent)"

definition createTerm ::
  "(GlossaryTermCreate, GlossaryTerm) backend \<Rightarrow> GlossaryTermCreate \<Rightarrow>
   GlossaryTermCreate http_request list \<Rightarrow>
   (jsstring + GlossaryTerm) \<times> GlossaryTermCreate http_request list" where
  "createTerm backend trm sent = ApiService_post backend ''/glossary/terms'' trm sent"

text \<open>
  \<open>createTermFromSuggestion(novelId, originalTerm, preferredTerm, termType = 'general')\<close>
  builds the term and hands it to \<open>createTerm\<close>.
\<close>

definition createTermFromSuggestion ::
  "(GlossaryTermCreate, GlossaryTerm) backend \<Rightarrow> int \<Rightarrow> jsstring \<Rightarrow> jsstring \<Rightarrow>
   jsstring option \<Rightarrow> GlossaryTermCreate http_request list \<Rightarrow>
   (jsstring + GlossaryTerm) \<times> GlossaryTermCreate http_request list" where
  "createTermFromSuggestion backend novelId originalTerm preferredTerm termType sent =
     (let termType = (case termType of None \<Rightarrow> js ''general'' | Some ty \<Rightarrow> ty);
          trm = \<lparr> GlossaryTermCreate.novel_id = novelId, original_term = originalTerm,
                  preferred_term = preferredTerm, term_type = termType, context' = None \<rparr>
      in createTerm backend trm sent)"

text \<open>
  \<open>getFrequentTerms(novelId, limit = 20)\<close>: the terms \<open>getTerms(novelId)\<close> delivers,
  sorted by \<open>b.frequency - a.frequency\<close> and cut by \<open>slice(0, limit)\<close>; an error of
  \<open>getTerms\<close> is passed on. The limit is \<open>None\<close> when the argument is left out, and
  is 20 then.
\<close>

definition getFrequentTerms ::
  "('b, GlossaryTerm list) backend \<Rightarrow> int \<Rightarrow> int option \<Rightarrow> 'b http_request list \<Rightarrow>
   (jsstring + GlossaryTerm list) \<times> 'b http_request list" where
  "getFrequentTerms backend novelId limit sent =
     (let limit = (case limit of None \<Rightarrow> 20 | Some n \<Rightarrow> n)
      in case getTerms backend novelId None True sent of
           (Inr terms, sent1) \<Rightarrow>
             (let sortedTerms =
                    Array_slice 0 limit (Array_sort (\<lambda>a b. frequency b - frequency a) terms)
              in (Inr sortedTerms, sent1))
         | (Inl err, sent1) \<Rightarrow> (Inl err, sent1))"

text \<open>
  The order the specification gives for the terms of a glossary: descending frequency,
  then term id.
\<close>

definition by_frequency_then_id :: "GlossaryTerm \<Rightarrow> GlossaryTerm \<Rightarrow> bool" where
  "by_frequency_then_id a b \<longleftrightarrow>
     frequency b < frequency a \<or> (frequency a = frequency b \<and> GlossaryTerm.id' a \<le> GlossaryTerm.id' b)"

text \<open>
  \<open>validateTerm(term, existingTerms)\<close>. \<open>String.prototype.toLowerCase\<close> applies the
  Unicode case mapping, a table that is no part of the sources: it is the parameter
  \<open>toLowerCase\<close>. On ASCII text it is \<open>toLowerCase_ascii\<close>. The fields are typed
  \<open>string\<close>, so \<open>!s\<close> holds exactly for the empty string.
\<close>

definition toLowerCase_ascii :: "jsstring \<Rightarrow> jsstring" where
  "toLowerCase_ascii s = map (\<lambda>c. if 0x0041 \<le> c \<and> c \<le> 0x005A then c + 0x0020 else c) s"

definition validateTerm ::
  "(jsstring \<Rightarrow> jsstring) \<Rightarrow> GlossaryTermCreate \<Rightarrow> GlossaryTerm list \<Rightarrow> validation" where
  "validateTerm toLowerCase trm existingTerms =
     (let errors = [];
          errors = (if GlossaryTermCreate.original_term trm = [] \<or>
                       length (trim (GlossaryTermCreate.original_term trm)) = 0
                    then errors @ [''Original term cannot be empty''] else errors);
          errors = (if GlossaryTermCreate.preferred_term trm = [] \<or>
                       length (trim (GlossaryTermCreate.preferred_term trm)) = 0
                    then errors @ [''Preferred term cannot be empty''] else errors);
          errors = (if GlossaryTermCreate.term_type trm = [] \<or>
                       length (trim (GlossaryTermCreate.term_type trm)) = 0
                    then errors @ [''Term type cannot be empty''] else errors);
          duplicate = find (\<lambda>existing. toLowerCase (GlossaryTerm.original_term existing) =
                                       toLowerCase (GlossaryTermCreate.original_term trm))
                        existingTerms;
          errors = (if duplicate \<noteq> None
                    then errors @ [''A term with this original term already exists''] else errors);
          errors = (if GlossaryTermCreate.original_term trm \<noteq> [] \<and>
                       length (GlossaryTermCreate.original_term trm) > 200
                    then errors @ [''Original term is too long (maximum 200 characters)'']
                    else errors);
          errors = (if GlossaryTermCreate.preferred_term trm \<noteq> [] \<and>
                       length (GlossaryTermCreate.preferred_term trm) > 200
                    then errors @ [''Preferred term is too long (maximum 200 characters)'']
                    else errors)
      in \<lparr> valid = (length errors = 0), errors = errors \<rparr>)"

text \<open>
  \<open>getTermStatistics\<close> counts the term types in \<open>typeStats\<close>, an object literal
  \<open>{}\<close> used as a dictionary. Such an object inherits the properties of
  \<open>Object.prototype\<close>: reading a key it does not own yields the inherited function (for
  \<open>__proto__\<close>, the prototype object) when the key is one of
\<close>

definition Object_prototype_keys :: "jsstring list" where
  "Object_prototype_keys =
     map js [''constructor'', ''__defineGetter__'', ''__defineSetter__'', ''hasOwnProperty'',
             ''__lookupGetter__'', ''__lookupSetter__'', ''isPrototypeOf'',
             ''propertyIsEnumerable'', ''toString'', ''valueOf'', ''__proto__'',
             ''toLocaleString'']"

text \<open>
  and \<open>undefined\<close> otherwise. A value stored in \<open>typeStats\<close> is a number or, once an
  inherited value has been added to 1, a string (the text of the operand followed by
  \<open>1\<close>; the text itself is not modelled).
\<close>

datatype js_value = Num nat | Str

datatype property = Undefined | Own js_value | Inherited

definition get_property :: "(jsstring \<rightharpoonup> js_value) \<Rightarrow> jsstring \<Rightarrow> property" where
  "get_property obj k =
     (case obj k of
        Some v \<Rightarrow> Own v
      | None \<Rightarrow> if k \<in> set Object_prototype_keys then Inherited else Undefined)"

text \<open>
  \<open>(x || 0) + 1\<close>: \<open>undefined\<close> and 0 are falsy and give 1; a number \<open>n\<close> gives
  \<open>n + 1\<close>; a function, an object and a non-empty string are truthy, and \<open>+\<close>
  concatenates.
\<close>

definition or_zero_plus_one :: "property \<Rightarrow> js_value" where
  "or_zero_plus_one x =
     (case x of
        Undefined \<Rightarrow> Num 1
      | Own (Num n) \<Rightarrow> Num (n + 1)
      | Own Str \<Rightarrow> Str
      | Inherited \<Rightarrow> Str)"

text \<open>
  \<open>obj[k] = v\<close> creates or overwrites the own property \<open>k\<close>, except for
  \<open>__proto__\<close>, whose inherited setter ignores a value that is not an object.
\<close>

definition set_property :: "(jsstring \<rightharpoonup> js_value) \<Rightarrow> jsstring \<Rightarrow> js_value \<Rightarrow> (jsstring \<rightharpoonup> js_value)" where
  "set_property obj k v = (if k = js ''__proto__'' then obj else obj(k \<mapsto> v))"

definition count_type :: "(jsstring \<rightharpoonup> js_value) \<Rightarrow> GlossaryTerm \<Rightarrow> (jsstring \<rightharpoonup> js_value)" where
  "count_type typeStats t =
     set_property typeStats (GlossaryTerm.term_type t)
       (or_zero_plus_one (get_property typeStats (GlossaryTerm.term_type t)))"

record TermStatistics =
  totalTerms :: nat
  activeTerms :: nat
  inactiveTerms :: nat
  typeBreakdown :: "jsstring \<rightharpoonup> js_value"
  averageFrequency :: real
  mostFrequentTerm :: "GlossaryTerm option"

definition getTermStatistics ::
  "('b, GlossaryTerm list) backend \<Rightarrow> int \<Rightarrow> 'b http_request list \<Rightarrow>
   (jsstring + TermStatistics) \<times> 'b http_request list" where
  "getTermStatistics backend novelId sent =
     (case getTerms backend novelId None False sent of
        (Inr terms, sent1) \<Rightarrow>
          (let activeTerms = filter (\<lambda>t. is_active t) terms;
               inactiveTerms = filter (\<lambda>t. \<not> is_active t) terms;
               typeStats = foldl count_type Map.empty terms;
               stats = \<lparr> totalTerms = length terms,
                         activeTerms = length activeTerms,
                         inactiveTerms = length inactiveTerms,
                         typeBreakdown = typeStats,
                         averageFrequency =
                           (if length terms > 0
                            then double
                                   (foldl (\<lambda>sum t. double (sum + real_of_int (frequency t))) 0
                                      terms /
                                    real (length terms))
                            else 0),
                         mostFrequentTerm =
                           (case terms of
                              [] \<Rightarrow> None
                            | t0 # ts \<Rightarrow>
                                Some (foldl (\<lambda>max t. if frequency t > frequency max then t else max)
                                        t0 ts)) \<rparr>
           in (Inr stats, sent1))
      | (Inl err, sent1) \<Rightarrow> (Inl err, sent1))"

section \<open>NovelService (models/novel.model.ts, services/novel.ts)\<close>

record Chapter =
  id' :: int
  chapter_number :: int
  title :: jsstring
  url :: jsstring
  is_processed :: bool
  word_count :: int

record Novel =
  id' :: int
  title :: jsstring
  url :: jsstring
  description :: jsstring
  author :: jsstring
  status :: jsstring
  total_chapters :: int
  chapters :: "Chapter list"

definition getNovelById ::
  "('b, Novel) backend \<Rightarrow> int \<Rightarrow> 'b http_request list \<Rightarrow>
   (jsstring + Novel) \<times> 'b http_request list" where
  "getNovelById backend novelId sent =
     ApiService_get backend (''/scraper/novels/'' @ string_of_int novelId) None sent"

record ProcessingStats =
  totalChapters :: nat
  processedChapters :: nat
  completionPercentage :: real
  averageWordCount :: real

definition getProcessingStats ::
  "('b, Novel) backend \<Rightarrow> int \<Rightarrow> 'b http_request list \<Rightarrow>
   (jsstring + ProcessingStats) \<times> 'b http_request list" where
  "getProcessingStats backend novelId sent =
     (case getNovelById backend novelId sent of
        (Inr novel, sent1) \<Rightarrow>
          (let totalChapters = length (chapters novel);
               processedChapters = length (filter (\<lambda>ch. is_processed ch) (chapters novel));
               stats = \<lparr> totalChapters = totalChapters,
                         processedChapters = processedChapters,
                         completionPercentage =
                           (if totalChapters > 0
                            then double
                                   (double (real processedChapters / real totalChapters) * 100)
                            else 0),
                         averageWordCount =
                           (if totalChapters > 0
                            then double
                                   (foldl (\<lambda>sum ch. double (sum + real_of_int (word_count ch))) 0
                                      (chapters novel) /
                                    real totalChapters)
                            else 0) \<rparr>
           in (Inr stats, sent1))
      | (Inl err, sent1) \<Rightarrow> (Inl err, sent1))"

section \<open>Example values\<close>

definition Elyra :: GlossaryTerm where
  "Elyra = \<lparr> GlossaryTerm.id' = 1, novel_id = 7, original_term = js ''Elyra'',
               preferred_term = js ''Elyra'', term_type = js ''character'', context' = None,
               frequency = 3, is_active = True, created_at = js ''2024-01-01'',
               updated_at = js ''2024-01-01'' \<rparr>"

definition elyra :: GlossaryTermCreate where
  "elyra = \<lparr> GlossaryTermCreate.novel_id = 7, original_term = js ''elyra'',
               preferred_term = js ''Elyra'', term_type = js ''character'', context' = None \<rparr>"

definition long_term :: "nat \<Rightarrow> GlossaryTermCreate" where
  "long_term n = \<lparr> GlossaryTermCreate.novel_id = 7, original_term = replicate n 0x0061,
                     preferred_term = replicate n 0x0062, term_type = js ''place'',
                     context' = None \<rparr>"

definition offline :: "('b, 'a) backend" where
  "offline sent req = Failure \<lparr> error = NoBody, message = js ''offline'', status = 0 \<rparr>"

definition unavailable :: HttpErrorResponse where
  "unavailable = \<lparr> error = ServerBody (Some (js ''busy'')), message = js ''Http failure'',
                     status = 503 \<rparr>"

definition flaky :: "('b, nat) backend" where
  "flaky sent req = (if sent = [] then Failure unavailable else Response (length sent))"

definition health :: "'b http_request" where
  "health = \<lparr> verb = GET, url = ''http://localhost:8000/api/health'', json_headers = True,
               params = None, body = None \<rparr>"

definition chapter_of :: "int \<Rightarrow> bool \<Rightarrow> Chapter" where
  "chapter_of n processed =
     \<lparr> Chapter.id' = n, chapter_number = n, title = js ''Chapter'', url = js ''/c'',
       is_processed = processed, word_count = 1000 \<rparr>"

definition abyss :: Novel where
  "abyss = \<lparr> Novel.id' = 7, title = js ''Abyss Domination'', url = js ''/abyss'',
               description = js '''', author = js '''', status = js ''ongoing'',
               total_chapters = 4,
               chapters = [chapter_of 1 True, chapter_of 2 False, chapter_of 3 False,
                           chapter_of 4 False] \<rparr>"

definition saga :: Novel where
  "saga = \<lparr> Novel.id' = 8, title = js ''Saga'', url = js ''/saga'', description = [],
              author = [], status = js ''ongoing'', total_chapters = 25,
              chapters = replicate 7 (chapter_of 1 True) @ replicate 18 (chapter_of 2 False) \<rparr>"

definition novel_with :: "Chapter list \<Rightarrow> Novel" where
  "novel_with chs = \<lparr> Novel.id' = 9, title = js ''Draft'', url = js ''/draft'', description = [],
                        author = [], status = js ''ongoing'', total_chapters = int (length chs),
                        chapters = chs \<rparr>"

definition serving :: "Novel \<Rightarrow> ('b, Novel) backend" where
  "serving novel sent req = Response novel"

definition example_changes :: "json list" where
  "example_changes =
     [JObject [(''type'', JString (js ''style_correction'')),
               (''description'', JString (js ''tense''))]]"

definition example_fields :: "(string \<times> json) list" where
  "example_fields =
     [(''original_text'', JString (js ''He go to city.'')),
      (''refined_text'', JString (js ''He went to the city.'')),
      (''changes_made'', JArray example_changes),
      (''confidence_score'', JNumber 0.9),
      (''processing_time'', JNumber 1.5)]"

definition example_result :: json where
  "example_result = JObject example_fields"

definition Kael :: GlossaryTerm where
  "Kael = \<lparr> GlossaryTerm.id' = 2, novel_id = 7, original_term = js ''Kael'',
              preferred_term = js ''Kael'', term_type = js ''character'', context' = None,
              frequency = 5, is_active = True, created_at = js ''2024-01-02'',
              updated_at = js ''2024-01-02'' \<rparr>"

definition Mira :: GlossaryTerm where
  "Mira = \<lparr> GlossaryTerm.id' = 3, novel_id = 7, original_term = js ''Mira'',
              preferred_term = js ''Mira'', term_type = js ''character'', context' = None,
              frequency = 3, is_active = True, created_at = js ''2024-01-03'',
              updated_at = js ''2024-01-03'' \<rparr>"

definition glossary :: "('b, GlossaryTerm list) backend" where
  "glossary sent req = Response [Kael, Elyra, Mira]"

definition Builder :: GlossaryTerm where
  "Builder = \<lparr> GlossaryTerm.id' = 4, novel_id = 7, original_term = js ''Builder'',
                 preferred_term = js ''Constructor'', term_type = js ''constructor'',
                 context' = None, frequency = 2, is_active = True,
                 created_at = js ''2024-01-04'', updated_at = js ''2024-01-04'' \<rparr>"

definition builders :: "('b, GlossaryTerm list) backend" where
  "builders sent req = Response [Builder]"

section \<open>Properties of trimming\<close>

lemma trim_Nil_iff: "trim s = [] \<longleftrightarrow> (\<forall>c\<in>set s. isWhiteSpace c)"
proof
  assume "trim s = []"
  then have all: "\<forall>x\<in>set (dropWhile isWhiteSpace s). isWhiteSpace x"
    by (simp add: trim_def dropWhile_eq_Nil_conv)
  have "dropWhile isWhiteSpace s = []"
  proof (rule ccontr)
    assume ne: "dropWhile isWhiteSpace s \<noteq> []"
    then have "\<not> isWhiteSpace (hd (dropWhile isWhiteSpace s))"
      by (rule hd_dropWhile)
    moreover from ne have "hd (dropWhile isWhiteSpace s) \<in> set (dropWhile isWhiteSpace s)"
      by simp
    ultimately show False using all by blast
  qed
  then show "\<forall>c\<in>set s. isWhiteSpace c"
    by (simp add: dropWhile_eq_Nil_conv)
next
  assume "\<forall>c\<in>set s. isWhiteSpace c"
  then show "trim s = []"
    by (auto simp: trim_def dest: set_dropWhileD)
qed

lemma trim_replicate: "trim (replicate n c) = (if isWhiteSpace c then [] else replicate n c)"
  by (simp add: trim_def dropWhile_replicate)

section \<open>Properties of NlpService.validateTextForProcessing\<close>

lemma errors_validateTextForProcessing:
  "errors (validateTextForProcessing text) =
     (if trim text = [] then [''Text cannot be empty''] else []) @
     (if 50000 < length text then [''Text is too long (maximum 50,000 characters)''] else []) @
     (if length text < 10 then [''Text is too short (minimum 10 characters)''] else [])"
  by (auto simp: validateTextForProcessing_def Let_def trim_def)

lemma valid_validateTextForProcessing:
  "valid (validateTextForProcessing text) \<longleftrightarrow> errors (validateTextForProcessing text) = []"
  by (simp add: validateTextForProcessing_def Let_def)

text \<open>
  Claim C1. \<open>validateTextForProcessing\<close> answers \<open>valid = false\<close> exactly when the text
  is empty, shorter than 10 characters or longer than 50,000 characters, and each of the
  three conditions has its own message in \<open>errors\<close>. Empty is what the check behind
  \<open>Text cannot be empty\<close> tests: nothing is left of the text after trimming. A text of
  length 9 is invalid, texts of length 10 and of length 50,000 are valid unless they are
  empty in that sense, and a text of length 50,001 is invalid.
\<close>

theorem validateTextForProcessing_invalid_iff:
  "(valid (validateTextForProcessing text) = False \<longleftrightarrow>
      trim text = [] \<or> length text < 10 \<or> 50000 < length text) \<and>
   (trim text = [] \<longleftrightarrow>
      ''Text cannot be empty'' \<in> set (errors (validateTextForProcessing text))) \<and>
   (length text < 10 \<longleftrightarrow>
      ''Text is too short (minimum 10 characters)''
        \<in> set (errors (validateTextForProcessing text))) \<and>
   (50000 < length text \<longleftrightarrow>
      ''Text is too long (maximum 50,000 characters)''
        \<in> set (errors (validateTextForProcessing text))) \<and>
   (length text = 9 \<longrightarrow> valid (validateTextForProcessing text) = False) \<and>
   (length text = 10 \<and> trim text \<noteq> [] \<longrightarrow> valid (validateTextForProcessing text) = True) \<and>
   (length text = 50000 \<and> trim text \<noteq> [] \<longrightarrow> valid (validateTextForProcessing text) = True) \<and>
   (length text = 50001 \<longrightarrow> valid (validateTextForProcessing text) = False)"
  unfolding valid_validateTextForProcessing errors_validateTextForProcessing
  by simp

text \<open>The four boundary lengths, on texts made of the letter \<open>a\<close>.\<close>

theorem validateTextForProcessing_boundaries:
  "valid (validateTextForProcessing (replicate 9 0x0061)) = False \<and>
   valid (validateTextForProcessing (replicate 10 0x0061)) = True \<and>
   valid (validateTextForProcessing (replicate 50000 0x0061)) = True \<and>
   valid (validateTextForProcessing (replicate 50001 0x0061)) = False"
  using validateTextForProcessing_invalid_iff [of "replicate 9 0x0061"]
    validateTextForProcessing_invalid_iff [of "replicate 10 0x0061"]
    validateTextForProcessing_invalid_iff [of "replicate 50000 0x0061"]
    validateTextForProcessing_invalid_iff [of "replicate 50001 0x0061"]
  by (simp add: trim_replicate isWhiteSpace_def)

text \<open>
  Claim C10. A text that consists of whitespace only is invalid and carries the message
  \<open>Text cannot be empty\<close>, also when its length lies between 10 and 50,000: emptiness is
  tested on the trimmed text, the two length bounds on the text as given, so that within
  the bounds the message is the only one.
\<close>

theorem validateTextForProcessing_whitespace:
  "\<forall>c\<in>set text. isWhiteSpace c \<Longrightarrow>
     valid (validateTextForProcessing text) = False \<and>
     ''Text cannot be empty'' \<in> set (errors (validateTextForProcessing text)) \<and>
     (10 \<le> length text \<and> length text \<le> 50000 \<longrightarrow>
        errors (validateTextForProcessing text) = [''Text cannot be empty''])"
  unfolding valid_validateTextForProcessing errors_validateTextForProcessing
  by (simp add: trim_Nil_iff)

text \<open>Ten spaces.\<close>

theorem validateTextForProcessing_whitespace_witness:
  "validateTextForProcessing (replicate 10 0x0020) =
     \<lparr> valid = False, errors = [''Text cannot be empty''] \<rparr>"
proof -
  have ws: "\<forall>c\<in>set (replicate 10 (0x0020 :: code_unit)). isWhiteSpace c"
    by (simp add: isWhiteSpace_def)
  from validateTextForProcessing_whitespace [OF ws] show ?thesis
    by simp
qed

section \<open>Properties of GlossaryService.validateTerm\<close>

lemma errors_validateTerm:
  "errors (validateTerm toLowerCase trm existingTerms) =
     (if trim (GlossaryTermCreate.original_term trm) = []
      then [''Original term cannot be empty''] else []) @
     (if trim (GlossaryTermCreate.preferred_term trm) = []
      then [''Preferred term cannot be empty''] else []) @
     (if trim (GlossaryTermCreate.term_type trm) = []
      then [''Term type cannot be empty''] else []) @
     (if \<exists>existing\<in>set existingTerms.
           toLowerCase (GlossaryTerm.original_term existing) =
           toLowerCase (GlossaryTermCreate.original_term trm)
      then [''A term with this original term already exists''] else []) @
     (if 200 < length (GlossaryTermCreate.original_term trm)
      then [''Original term is too long (maximum 200 characters)''] else []) @
     (if 200 < length (GlossaryTermCreate.preferred_term trm)
      then [''Preferred term is too long (maximum 200 characters)''] else [])"
proof -
  have e: "\<And>s. (s = [] \<or> length (trim s) = 0) = (trim s = [])"
    by (auto simp: trim_def)
  have l: "\<And>s::jsstring. (s \<noteq> [] \<and> 200 < length s) = (200 < length s)"
    by auto
  show ?thesis
    unfolding validateTerm_def Let_def e l find_None_iff
    by (simp add: Bex_def)
qed

lemma valid_validateTerm:
  "valid (validateTerm toLowerCase trm existingTerms) \<longleftrightarrow>
     errors (validateTerm toLowerCase trm existingTerms) = []"
  by (simp add: validateTerm_def Let_def)

text \<open>
  Claim C2. \<open>validateTerm\<close> reports the duplicate error exactly when the original term of
  some existing term equals the new original term once both are lower-cased, and a term
  reported as a duplicate is not valid.
\<close>

theorem validateTerm_duplicate_iff:
  "(''A term with this original term already exists''
      \<in> set (errors (validateTerm toLowerCase trm existingTerms)) \<longleftrightarrow>
    (\<exists>existing\<in>set existingTerms.
       toLowerCase (GlossaryTerm.original_term existing) =
       toLowerCase (GlossaryTermCreate.original_term trm))) \<and>
   (''A term with this original term already exists''
      \<in> set (errors (validateTerm toLowerCase trm existingTerms)) \<longrightarrow>
    valid (validateTerm toLowerCase trm existingTerms) = False)"
  unfolding valid_validateTerm errors_validateTerm
  by simp

text \<open>With \<open>Elyra\<close> in the glossary, \<open>elyra\<close> is rejected as a duplicate.\<close>

theorem validateTerm_duplicate_Elyra:
  "''A term with this original term already exists''
      \<in> set (errors (validateTerm toLowerCase_ascii elyra [Elyra])) \<and>
   valid (validateTerm toLowerCase_ascii elyra [Elyra]) = False"
proof -
  have "\<exists>existing\<in>set [Elyra].
          toLowerCase_ascii (GlossaryTerm.original_term existing) =
          toLowerCase_ascii (GlossaryTermCreate.original_term elyra)"
    by (simp add: Elyra_def elyra_def js_def toLowerCase_ascii_def)
  with validateTerm_duplicate_iff [of toLowerCase_ascii elyra "[Elyra]"] show ?thesis
    by blast
qed

text \<open>
  Claim C3, as stated: a term is valid only when its fields are non-empty after trimming
  and the two term fields have at most 200 characters, and these checks are performed
  before any write. The service performs no check before it writes: \<open>createTerm\<close> does
  not call \<open>validateTerm\<close>, and the term with fields of 201 letters, which
  \<open>validateTerm\<close> rejects, is posted to the server as it is.
\<close>

theorem createTerm_posts_invalid_term:
  "valid (validateTerm toLowerCase_ascii (long_term 201) []) = False \<and>
   snd (createTerm offline (long_term 201) []) =
     [\<lparr> verb = POST, url = ''http://localhost:8000/api/glossary/terms'',
        json_headers = True, params = None, body = Some (long_term 201) \<rparr>]"
  unfolding valid_validateTerm errors_validateTerm
  by (simp add: long_term_def createTerm_def ApiService_post_def once_def subscribe_def
      baseUrl_def offline_def)

text \<open>
  Claim C3, amended. \<open>validateTerm\<close> answers \<open>valid = true\<close> only when original term,
  preferred term and term type are non-empty after trimming and the two term fields have
  at most 200 characters; together with the absence of a duplicate these conditions are
  also sufficient, so a field of 200 characters passes, and a field of 201 characters
  fails. The checks are not tied to the write: \<open>createTerm\<close> and
  \<open>createTermFromSuggestion\<close> send the POST request that carries the term they are
  given, whatever \<open>validateTerm\<close> answers for it; calling \<open>validateTerm\<close> first is left
  to the caller.
\<close>

theorem validateTerm_valid_only_when:
  "(valid (validateTerm toLowerCase trm existingTerms) = True \<longrightarrow>
      trim (GlossaryTermCreate.original_term trm) \<noteq> [] \<and>
      trim (GlossaryTermCreate.preferred_term trm) \<noteq> [] \<and>
      trim (GlossaryTermCreate.term_type trm) \<noteq> [] \<and>
      length (GlossaryTermCreate.original_term trm) \<le> 200 \<and>
      length (GlossaryTermCreate.preferred_term trm) \<le> 200) \<and>
   (trim (GlossaryTermCreate.original_term trm) \<noteq> [] \<and>
    trim (GlossaryTermCreate.preferred_term trm) \<noteq> [] \<and>
    trim (GlossaryTermCreate.term_type trm) \<noteq> [] \<and>
    length (GlossaryTermCreate.original_term trm) \<le> 200 \<and>
    length (GlossaryTermCreate.preferred_term trm) \<le> 200 \<and>
    (\<forall>existing\<in>set existingTerms.
       toLowerCase (GlossaryTerm.original_term existing) \<noteq>
       toLowerCase (GlossaryTermCreate.original_term trm)) \<longrightarrow>
      valid (validateTerm toLowerCase trm existingTerms) = True) \<and>
   (length (GlossaryTermCreate.original_term trm) = 201 \<or>
    length (GlossaryTermCreate.preferred_term trm) = 201 \<longrightarrow>
      valid (validateTerm toLowerCase trm existingTerms) = False) \<and>
   snd (createTerm backend trm sent) =
     sent @ [\<lparr> verb = POST, url = ''http://localhost:8000/api/glossary/terms'',
               json_headers = True, params = None, body = Some trm \<rparr>] \<and>
   snd (createTermFromSuggestion backend novelId originalTerm preferredTerm termType sent) =
     sent @ [\<lparr> verb = POST, url = ''http://localhost:8000/api/glossary/terms'',
               json_headers = True, params = None,
               body = Some \<lparr> GlossaryTermCreate.novel_id = novelId,
                             original_term = originalTerm, preferred_term = preferredTerm,
                             term_type = (case termType of None \<Rightarrow> js ''general''
                                          | Some ty \<Rightarrow> ty),
                             context' = None \<rparr> \<rparr>]"
proof -
  have post: "snd (createTerm b t s) =
      s @ [\<lparr> verb = POST, url = ''http://localhost:8000/api/glossary/terms'',
             json_headers = True, params = None, body = Some t \<rparr>]" for b t s
    by (simp add: createTerm_def ApiService_post_def once_def subscribe_def baseUrl_def
        split: http_outcome.splits)
  have only_when: "valid (validateTerm toLowerCase trm existingTerms) = True \<longrightarrow>
      trim (GlossaryTermCreate.original_term trm) \<noteq> [] \<and>
      trim (GlossaryTermCreate.preferred_term trm) \<noteq> [] \<and>
      trim (GlossaryTermCreate.term_type trm) \<noteq> [] \<and>
      length (GlossaryTermCreate.original_term trm) \<le> 200 \<and>
      length (GlossaryTermCreate.preferred_term trm) \<le> 200"
    unfolding valid_validateTerm errors_validateTerm by auto
  have sufficient: "trim (GlossaryTermCreate.original_term trm) \<noteq> [] \<and>
    trim (GlossaryTermCreate.preferred_term trm) \<noteq> [] \<and>
    trim (GlossaryTermCreate.term_type trm) \<noteq> [] \<and>
    length (GlossaryTermCreate.original_term trm) \<le> 200 \<and>
    length (GlossaryTermCreate.preferred_term trm) \<le> 200 \<and>
    (\<forall>existing\<in>set existingTerms.
       toLowerCase (GlossaryTerm.original_term existing) \<noteq>
       toLowerCase (GlossaryTermCreate.original_term trm)) \<longrightarrow>
      valid (validateTerm toLowerCase trm existingTerms) = True"
    unfolding valid_validateTerm errors_validateTerm by auto
  have too_long: "length (GlossaryTermCreate.original_term trm) = 201 \<or>
    length (GlossaryTermCreate.preferred_term trm) = 201 \<longrightarrow>
      valid (validateTerm toLowerCase trm existingTerms) = False"
    unfolding valid_validateTerm errors_validateTerm by auto
  have suggestion:
    "snd (createTermFromSuggestion backend novelId originalTerm preferredTerm termType sent) =
     sent @ [\<lparr> verb = POST, url = ''http://localhost:8000/api/glossary/terms'',
               json_headers = True, params = None,
               body = Some \<lparr> GlossaryTermCreate.novel_id = novelId,
                             original_term = originalTerm, preferred_term = preferredTerm,
                             term_type = (case termType of None \<Rightarrow> js ''general''
                                          | Some ty \<Rightarrow> ty),
                             context' = None \<rparr> \<rparr>]"
    unfolding createTermFromSuggestion_def Let_def by (rule post)
  show ?thesis
    by (intro conjI only_when sufficient too_long post suggestion)
qed

text \<open>
  Term fields of 200 and of 201 letters: the first term is valid, the second is not, and
  each of them is posted.
\<close>

theorem validateTerm_length_boundary:
  "valid (validateTerm toLowerCase_ascii (long_term 200) []) = True \<and>
   valid (validateTerm toLowerCase_ascii (long_term 201) []) = False \<and>
   snd (createTerm offline (long_term 200) []) =
     [\<lparr> verb = POST, url = ''http://localhost:8000/api/glossary/terms'',
        json_headers = True, params = None, body = Some (long_term 200) \<rparr>] \<and>
   snd (createTermFromSuggestion offline 7 (replicate 201 0x0061) (replicate 201 0x0062)
          (Some (js ''place'')) []) =
     [\<lparr> verb = POST, url = ''http://localhost:8000/api/glossary/terms'',
        json_headers = True, params = None, body = Some (long_term 201) \<rparr>]"
proof -
  note short = validateTerm_valid_only_when
      [where toLowerCase = toLowerCase_ascii and trm = "long_term 200"
         and existingTerms = "[]" and backend = offline and sent = "[]" and novelId = 7
         and originalTerm = "replicate 201 0x0061"
         and preferredTerm = "replicate 201 0x0062" and termType = "Some (js ''place'')"]
  note long = validateTerm_valid_only_when
      [where toLowerCase = toLowerCase_ascii and trm = "long_term 201"
         and existingTerms = "[]"]
  have fields: "trim (GlossaryTermCreate.original_term (long_term 200)) \<noteq> []"
    "trim (GlossaryTermCreate.preferred_term (long_term 200)) \<noteq> []"
    "trim (GlossaryTermCreate.term_type (long_term 200)) \<noteq> []"
    "length (GlossaryTermCreate.original_term (long_term 200)) \<le> 200"
    "length (GlossaryTermCreate.preferred_term (long_term 200)) \<le> 200"
    "length (GlossaryTermCreate.original_term (long_term 201)) = 201"
    by (simp_all add: long_term_def trim_replicate isWhiteSpace_def js_def trim_def)
  from short fields have valid_short:
    "valid (validateTerm toLowerCase_ascii (long_term 200) []) = True"
    by simp
  from long fields have invalid_long:
    "valid (validateTerm toLowerCase_ascii (long_term 201) []) = False"
    by simp
  from short have posted:
    "snd (createTerm offline (long_term 200) []) =
     [\<lparr> verb = POST, url = ''http://localhost:8000/api/glossary/terms'',
        json_headers = True, params = None, body = Some (long_term 200) \<rparr>]"
    by (simp only: append_Nil)
  have built: "\<lparr> GlossaryTermCreate.novel_id = 7, original_term = replicate 201 0x0061,
       preferred_term = replicate 201 0x0062,
       term_type = (case Some (js ''place'') of None \<Rightarrow> js ''general'' | Some ty \<Rightarrow> ty),
       context' = None \<rparr> = long_term 201"
    by (simp only: long_term_def option.case)
  from short have suggested:
    "snd (createTermFromSuggestion offline 7 (replicate 201 0x0061) (replicate 201 0x0062)
          (Some (js ''place'')) []) =
     [\<lparr> verb = POST, url = ''http://localhost:8000/api/glossary/terms'',
        json_headers = True, params = None, body = Some (long_term 201) \<rparr>]"
    by (simp only: append_Nil built)
  from valid_short invalid_long posted suggested show ?thesis
    by (intro conjI)
qed

section \<open>Properties of ApiService\<close>

lemma snd_once: "snd (once backend req sent) = sent @ [req]"
  by (simp add: once_def subscribe_def split: http_outcome.splits)

lemma fst_once:
  "fst (once backend req sent) =
     (case backend sent req of Response v \<Rightarrow> Inr v | Failure e \<Rightarrow> Inl (handleError e))"
  by (simp add: once_def subscribe_def split: http_outcome.splits)

text \<open>
  Claim C5, as stated: a request issued through the generic API layer that fails is not
  re-issued before the error reaches the caller. It does not hold for \<open>get\<close>: against
  a server that fails the first request and answers the second, the failed health check
  is sent a second time and the caller receives the answer, not the error.
\<close>

theorem ApiService_get_retries_once:
  "flaky ([] :: unit http_request list) health = Failure unavailable \<and>
   ApiService_get flaky ''/health'' None ([] :: unit http_request list) =
     (Inr 1, [health, health])"
  by (simp add: ApiService_get_def Let_def subscribe_def flaky_def health_def baseUrl_def)

text \<open>
  Claim C5, amended. \<open>post\<close>, \<open>put\<close>, \<open>delete\<close> and \<open>upload\<close> send their request
  once, whatever the outcome, and hand its failure to the caller. \<open>get\<close> sends its
  request once when it is answered; when it fails, \<open>get\<close> sends the same request a
  second time, and the caller receives the outcome of the second attempt only.
\<close>

theorem ApiService_requests_sent:
  fixes backend :: "('b, 'a) backend"
    and endpoint :: string and ps :: "(string \<times> json) list option" and data :: 'b
  defines "get_request \<equiv> \<lparr> verb = GET, url = baseUrl @ endpoint, json_headers = True,
                              params = ps, body = None \<rparr>"
    and "post_request \<equiv> \<lparr> verb = POST, url = baseUrl @ endpoint, json_headers = True,
                            params = None, body = Some data \<rparr>"
    and "put_request \<equiv> \<lparr> verb = PUT, url = baseUrl @ endpoint, json_headers = True,
                           params = None, body = Some data \<rparr>"
    and "delete_request \<equiv> \<lparr> verb = DELETE, url = baseUrl @ endpoint, json_headers = True,
                              params = None, body = None \<rparr>"
    and "upload_request \<equiv> \<lparr> verb = POST, url = baseUrl @ endpoint, json_headers = False,
                              params = None, body = Some data \<rparr>"
  shows
  "snd (ApiService_post backend endpoint data sent) = sent @ [post_request] \<and>
   snd (ApiService_put backend endpoint data sent) = sent @ [put_request] \<and>
   snd (ApiService_delete backend endpoint sent) = sent @ [delete_request] \<and>
   snd (ApiService_upload backend endpoint data sent) = sent @ [upload_request] \<and>
   (\<forall>e. backend sent post_request = Failure e \<longrightarrow>
      fst (ApiService_post backend endpoint data sent) = Inl (handleError e)) \<and>
   (\<forall>e. backend sent put_request = Failure e \<longrightarrow>
      fst (ApiService_put backend endpoint data sent) = Inl (handleError e)) \<and>
   (\<forall>e. backend sent delete_request = Failure e \<longrightarrow>
      fst (ApiService_delete backend endpoint sent) = Inl (handleError e)) \<and>
   (\<forall>e. backend sent upload_request = Failure e \<longrightarrow>
      fst (ApiService_upload backend endpoint data sent) = Inl (handleError e)) \<and>
   (\<forall>v. backend sent get_request = Response v \<longrightarrow>
      ApiService_get backend endpoint ps sent = (Inr v, sent @ [get_request])) \<and>
   (\<forall>e. backend sent get_request = Failure e \<longrightarrow>
      snd (ApiService_get backend endpoint ps sent) = sent @ [get_request, get_request] \<and>
      fst (ApiService_get backend endpoint ps sent) =
        (case backend (sent @ [get_request]) get_request of
           Response v \<Rightarrow> Inr v
         | Failure e2 \<Rightarrow> Inl (handleError e2)))"
  unfolding get_request_def post_request_def put_request_def delete_request_def
    upload_request_def
  by (auto simp: ApiService_post_def ApiService_put_def ApiService_delete_def
      ApiService_upload_def ApiService_get_def Let_def snd_once fst_once subscribe_def
      split: http_outcome.splits)

text \<open>
  The health check against the server that fails once, and the creation of a term against
  a server that is down.
\<close>

theorem ApiService_requests_sent_witness:
  "snd (ApiService_get flaky ''/health'' None ([] :: unit http_request list)) = [health, health] \<and>
   fst (ApiService_get flaky ''/health'' None ([] :: unit http_request list)) = Inr 1 \<and>
   (ApiService_post offline ''/glossary/terms'' elyra [] :: (jsstring + GlossaryTerm) \<times> _) =
     (Inl (js ''offline''),
      [\<lparr> verb = POST, url = ''http://localhost:8000/api/glossary/terms'', json_headers = True,
          params = None, body = Some elyra \<rparr>])"
proof -
  have first: "flaky ([] :: unit http_request list)
                 \<lparr> verb = GET, url = baseUrl @ ''/health'', json_headers = True,
                   params = None, body = None \<rparr> = Failure unavailable"
    by (simp add: flaky_def)
  have down: "(offline :: (GlossaryTermCreate, GlossaryTerm) backend) []
                 \<lparr> verb = POST, url = baseUrl @ ''/glossary/terms'', json_headers = True,
                   params = None, body = Some elyra \<rparr> =
               Failure \<lparr> error = NoBody, message = js ''offline'', status = 0 \<rparr>"
    by (simp add: offline_def)
  from ApiService_requests_sent
    [where backend = flaky and endpoint = "''/health''" and ps = None
       and sent = "[] :: unit http_request list"] first
  have "snd (ApiService_get flaky ''/health'' None ([] :: unit http_request list)) =
          [health, health]"
    and "fst (ApiService_get flaky ''/health'' None ([] :: unit http_request list)) = Inr 1"
    by (simp_all add: health_def baseUrl_def flaky_def)
  moreover
  from ApiService_requests_sent
    [where backend = "offline :: (GlossaryTermCreate, GlossaryTerm) backend"
       and endpoint = "''/glossary/terms''" and data = elyra and sent = "[]"]
    down
  have "fst (ApiService_post offline ''/glossary/terms'' elyra []
               :: (jsstring + GlossaryTerm) \<times> _) = Inl (js ''offline'')"
    and "snd (ApiService_post offline ''/glossary/terms'' elyra []
                :: (jsstring + GlossaryTerm) \<times> _) =
           [\<lparr> verb = POST, url = ''http://localhost:8000/api/glossary/terms'',
               json_headers = True, params = None, body = Some elyra \<rparr>]"
    by (simp_all add: handleError_def baseUrl_def js_def)
  ultimately show ?thesis
    by (simp add: prod_eq_iff)
qed

section \<open>Properties of NlpService.quickRefine\<close>

text \<open>
  Claim C8. \<open>quickRefine\<close> posts one refinement request; in that request
  \<open>use_glossary\<close> is set only together with \<open>novel_id\<close>, and it is set exactly when a
  novel id other than 0 was passed. \<open>previewRefinement\<close> does the same.
\<close>

theorem quickRefine_request:
  "\<exists>request.
     snd (quickRefine backend txt novelId sent) =
       sent @ [\<lparr> verb = POST, url = baseUrl @ ''/nlp/refine-text'', json_headers = True,
                  params = None, body = Some request \<rparr>] \<and>
     text' request = txt \<and>
     RefineTextRequest.novel_id request = novelId \<and>
     (use_glossary request \<longrightarrow> RefineTextRequest.novel_id request \<noteq> None) \<and>
     (use_glossary request \<longleftrightarrow> (\<exists>n. novelId = Some n \<and> n \<noteq> 0)) \<and>
     previewRefinement backend txt novelId sent = quickRefine backend txt novelId sent"
proof -
  let ?request = "\<lparr> text' = txt,
                    use_glossary = (case novelId of None \<Rightarrow> False | Some n \<Rightarrow> n \<noteq> 0),
                    novel_id = novelId \<rparr>"
  have "snd (quickRefine backend txt novelId sent) =
       sent @ [\<lparr> verb = POST, url = baseUrl @ ''/nlp/refine-text'', json_headers = True,
                  params = None, body = Some ?request \<rparr>]"
    by (simp add: quickRefine_def refineText_def ApiService_post_def
        once_def subscribe_def Let_def split: http_outcome.splits)
  moreover have "use_glossary ?request \<longleftrightarrow> (\<exists>n. novelId = Some n \<and> n \<noteq> 0)"
    by (cases novelId) simp_all
  moreover have "use_glossary ?request \<longrightarrow> RefineTextRequest.novel_id ?request \<noteq> None"
    by (cases novelId) simp_all
  moreover have "previewRefinement backend txt novelId sent = quickRefine backend txt novelId sent"
    by (simp add: previewRefinement_def)
  ultimately show ?thesis
    by (intro exI [of _ ?request]) simp
qed

text \<open>A quick refinement for novel 7.\<close>

theorem quickRefine_request_witness:
  "snd (quickRefine offline (js ''He go to city.'') (Some 7) []) =
     [\<lparr> verb = POST, url = ''http://localhost:8000/api/nlp/refine-text'', json_headers = True,
         params = None,
         body = Some \<lparr> text' = js ''He go to city.'', use_glossary = True,
                        novel_id = Some 7 \<rparr> \<rparr>]"
proof -
  from quickRefine_request [of offline "js ''He go to city.''" "Some 7" "[]"]
  obtain request where
    sent: "snd (quickRefine offline (js ''He go to city.'') (Some 7) []) =
       [\<lparr> verb = POST, url = baseUrl @ ''/nlp/refine-text'', json_headers = True,
           params = None, body = Some request \<rparr>]" and
    fields: "text' request = js ''He go to city.''"
      "RefineTextRequest.novel_id request = Some 7" "use_glossary request"
    by auto
  from fields have "request = \<lparr> text' = js ''He go to city.'', use_glossary = True,
                        novel_id = Some 7 \<rparr>"
    by (cases request) simp
  with sent show ?thesis
    by (simp add: baseUrl_def)
qed

section \<open>Properties of double rounding\<close>

lemma pow2_pos: "0 < pow2 k"
  by (simp add: pow2_def)

lemma pow2_add: "pow2 (j + k) = pow2 j * pow2 k"
proof -
  have "pow2 k = 2 powi k" for k
    by (simp add: pow2_def power_int_def power_one_over)
  then show ?thesis
    by (simp add: power_int_add)
qed

lemma pow2_nat: "0 \<le> k \<Longrightarrow> pow2 k = real_of_int (2 ^ nat k)"
  by (simp add: pow2_def)

lemma pow2_mono: "j \<le> k \<Longrightarrow> pow2 j \<le> pow2 k"
proof -
  assume "j \<le> k"
  then have "pow2 k = pow2 j * pow2 (k - j)"
    by (simp flip: pow2_add)
  moreover from \<open>j \<le> k\<close> have "1 \<le> pow2 (k - j)"
    by (simp add: pow2_def)
  ultimately show ?thesis
    using pow2_pos [of j] by (simp add: mult_le_cancel_left1)
qed

lemma halvings_bounds:
  "1 \<le> x \<Longrightarrow> 0 \<le> halvings x \<and> pow2 (halvings x) \<le> x \<and> x < pow2 (halvings x + 1)"
proof (induction x rule: halvings.induct)
  case (1 x)
  show ?case
  proof (cases "2 \<le> x")
    case True
    then have "1 \<le> x / 2"
      by simp
    from "1.IH" [OF True this] have
      ih: "0 \<le> halvings (x / 2)" "pow2 (halvings (x / 2)) \<le> x / 2"
        "x / 2 < pow2 (halvings (x / 2) + 1)"
      by simp_all
    have h: "halvings x = halvings (x / 2) + 1"
      using True by (subst halvings.simps) simp
    have two: "pow2 1 = 2"
      by (simp add: pow2_def)
    from ih show ?thesis
      unfolding h pow2_add two by simp
  next
    case False
    then have "halvings x = 0"
      by (subst halvings.simps) simp
    with False "1.prems" show ?thesis
      by (simp add: pow2_def)
  qed
qed

lemma doublings_bounds:
  "0 < x \<Longrightarrow> x < 1 \<Longrightarrow>
     pow2 (- doublings x) \<le> x \<and> x < pow2 (- doublings x + 1)"
proof (induction x rule: doublings.induct)
  case (1 x)
  have d: "doublings x = doublings (2 * x) + 1"
    using "1.prems" by (subst doublings.simps) simp
  have half: "pow2 (- 1) = 1 / 2"
    by (simp add: pow2_def)
  show ?case
  proof (cases "2 * x < 1")
    case True
    from "1.IH" [of] "1.prems" True have
      "pow2 (- doublings (2 * x)) \<le> 2 * x" "2 * x < pow2 (- doublings (2 * x) + 1)"
      by simp_all
    moreover have "pow2 (- doublings x) = pow2 (- doublings (2 * x)) * (1 / 2)"
      unfolding d using pow2_add [of "- doublings (2 * x)" "- 1"] by (simp add: half)
    moreover have "pow2 (- doublings x + 1) = pow2 (- doublings (2 * x) + 1) * (1 / 2)"
      unfolding d using pow2_add [of "- doublings (2 * x) + 1" "- 1"] by (simp add: half)
    ultimately show ?thesis
      by simp
  next
    case False
    then have "doublings (2 * x) = 0"
      by (subst doublings.simps) simp
    with d have "doublings x = 1"
      by simp
    with False "1.prems" show ?thesis
      by (simp add: pow2_def)
  qed
qed

lemma exponent_bounds:
  assumes "0 < x"
  shows "pow2 (exponent x) \<le> x" and "x < pow2 (exponent x + 1)"
  using assms halvings_bounds [of x] doublings_bounds [of x]
  by (auto simp: exponent_def not_less)

lemma exponent_less: "0 < x \<Longrightarrow> x < pow2 (k + 1) \<Longrightarrow> exponent x \<le> k"
proof (rule ccontr)
  assume x: "0 < x" "x < pow2 (k + 1)" and "\<not> exponent x \<le> k"
  then have "k + 1 \<le> exponent x"
    by simp
  then have "pow2 (k + 1) \<le> pow2 (exponent x)"
    by (rule pow2_mono)
  with exponent_bounds(1) [OF x(1)] x(2) show False
    by simp
qed

lemma exponent_ge: "pow2 k \<le> x \<Longrightarrow> k \<le> exponent x"
proof (rule ccontr)
  assume x: "pow2 k \<le> x" and "\<not> k \<le> exponent x"
  then have "exponent x + 1 \<le> k"
    by simp
  then have "pow2 (exponent x + 1) \<le> pow2 k"
    by (rule pow2_mono)
  moreover from x pow2_pos [of k] have "0 < x"
    by simp
  ultimately show False
    using exponent_bounds(2) [of x] x(1) by simp
qed

lemma roundTiesToEven_bounds:
  "\<lfloor>r\<rfloor> \<le> roundTiesToEven r" "roundTiesToEven r \<le> \<lceil>r\<rceil>"
  "\<bar>real_of_int (roundTiesToEven r) - r\<bar> \<le> 1 / 2"
proof -
  show "\<lfloor>r\<rfloor> \<le> roundTiesToEven r"
    by (simp add: roundTiesToEven_def Let_def)
  show "roundTiesToEven r \<le> \<lceil>r\<rceil>"
    by (auto simp: roundTiesToEven_def Let_def ceiling_altdef)
  show "\<bar>real_of_int (roundTiesToEven r) - r\<bar> \<le> 1 / 2"
    by (auto simp: roundTiesToEven_def Let_def)
qed

lemma double_pos:
  "0 < x \<Longrightarrow>
     double x = real_of_int (roundTiesToEven (x / pow2 (max (exponent x) (- 1022) - 52))) *
                pow2 (max (exponent x) (- 1022) - 52)"
  by (simp add: double_def Let_def)

lemma double_eval:
  assumes "0 < x" and "exponent x = e" and "- 1022 \<le> e"
    and "roundTiesToEven (x / pow2 (e - 52)) = n"
  shows "double x = real_of_int n * pow2 (e - 52)"
  using assms by (simp add: double_pos max_def)

lemma double_nonneg: "0 \<le> x \<Longrightarrow> 0 \<le> double x"
proof (cases "x = 0")
  case True
  then show ?thesis by (simp add: double_def)
next
  case False
  assume "0 \<le> x"
  with False have x: "0 < x" by simp
  let ?q = "pow2 (max (exponent x) (- 1022) - 52)"
  from x pow2_pos [of "max (exponent x) (- 1022) - 52"] have "0 \<le> x / ?q"
    by simp
  then have "0 \<le> \<lfloor>x / ?q\<rfloor>"
    by simp
  with roundTiesToEven_bounds(1) [of "x / ?q"] have "0 \<le> roundTiesToEven (x / ?q)"
    by linarith
  with pow2_pos [of "max (exponent x) (- 1022) - 52"] show ?thesis
    unfolding double_pos [OF x] by simp
qed

text \<open>Rounding does not cross an integer below \<open>2^53\<close>.\<close>

lemma double_le_int:
  assumes "0 < x" and "x \<le> real_of_int m" and "m < 2 ^ 53"
  shows "double x \<le> real_of_int m"
proof -
  let ?e = "max (exponent x) (- 1022)"
  let ?q = "pow2 (?e - 52)"
  from assms have "x < pow2 (52 + 1)"
    by (simp add: pow2_def)
  with \<open>0 < x\<close> have "exponent x \<le> 52"
    by (rule exponent_less)
  then have e: "0 \<le> 52 - ?e"
    by simp
  have inv: "pow2 (52 - ?e) * ?q = 1"
    using pow2_add [of "52 - ?e" "?e - 52"] by (simp add: pow2_def)
  have q: "0 < ?q"
    by (rule pow2_pos)
  define N where "N = m * 2 ^ nat (52 - ?e)"
  have N: "real_of_int N = real_of_int m * pow2 (52 - ?e)"
    by (simp add: N_def pow2_nat [OF e])
  have "x / ?q = x * pow2 (52 - ?e)"
    using inv q by (simp add: field_simps)
  also from assms(2) pow2_pos [of "52 - ?e"] have "\<dots> \<le> real_of_int m * pow2 (52 - ?e)"
    by (simp add: mult_right_mono)
  finally have "x / ?q \<le> real_of_int N"
    by (simp add: N)
  then have "\<lceil>x / ?q\<rceil> \<le> N"
    by (simp add: ceiling_le_iff)
  with roundTiesToEven_bounds(2) [of "x / ?q"] have "roundTiesToEven (x / ?q) \<le> N"
    by linarith
  then have "real_of_int (roundTiesToEven (x / ?q)) \<le> real_of_int N"
    by simp
  with q have "real_of_int (roundTiesToEven (x / ?q)) * ?q \<le> real_of_int N * ?q"
    by (simp add: mult_right_mono)
  also have "\<dots> = real_of_int m"
    unfolding N using inv by (simp add: mult.assoc)
  finally show ?thesis
    unfolding double_pos [OF \<open>0 < x\<close>] .
qed

text \<open>In the normal range the relative error of a rounding is at most \<open>2^-53\<close>.\<close>

lemma double_error:
  assumes "pow2 (- 1022) \<le> x"
  shows "\<bar>double x - x\<bar> \<le> x / 2 ^ 53"
proof -
  from assms pow2_pos [of "- 1022"] have x: "0 < x"
    by simp
  from assms have "- 1022 \<le> exponent x"
    by (rule exponent_ge)
  then have e: "max (exponent x) (- 1022) = exponent x"
    by simp
  let ?q = "pow2 (exponent x - 52)"
  have q: "0 < ?q"
    by (rule pow2_pos)
  have "double x - x = (real_of_int (roundTiesToEven (x / ?q)) - x / ?q) * ?q"
    unfolding double_pos [OF x] e using q by (simp add: field_simps)
  then have "\<bar>double x - x\<bar> = \<bar>real_of_int (roundTiesToEven (x / ?q)) - x / ?q\<bar> * ?q"
    using q by (simp add: abs_mult)
  also from roundTiesToEven_bounds(3) [of "x / ?q"] q have "\<dots> \<le> 1 / 2 * ?q"
    by (simp add: mult_right_mono)
  also have "?q = pow2 (exponent x) * pow2 (- 52)"
    using pow2_add [of "exponent x" "- 52"] by simp
  also have "1 / 2 * (pow2 (exponent x) * pow2 (- 52)) = pow2 (exponent x) / 2 ^ 53"
    by (simp add: pow2_def)
  also from exponent_bounds(1) [OF x] have "\<dots> \<le> x / 2 ^ 53"
    by (simp add: divide_right_mono)
  finally show ?thesis .
qed

lemma double_0: "double 0 = 0"
  by (simp add: double_def)

lemma exponent_1: "exponent 1 = 0"
  by (simp add: exponent_def)

lemma double_1: "double 1 = 1"
  by (rule double_eval [of 1 0 "2 ^ 52", simplified pow2_def, simplified])
     (simp_all add: exponent_1 roundTiesToEven_def Let_def pow2_def)

section \<open>Properties of NovelService.getProcessingStats\<close>

lemma double_100: "double 100 = 100"
proof -
  have "exponent 100 = 6"
    by (simp add: exponent_def)
  moreover have "roundTiesToEven (100 / pow2 (6 - 52)) = 100 * 2 ^ 46"
    by (simp add: roundTiesToEven_def Let_def pow2_def)
  ultimately have "double 100 = real_of_int (100 * 2 ^ 46) * pow2 (6 - 52)"
    by (intro double_eval) simp_all
  then show ?thesis
    by (simp add: pow2_def)
qed

lemma double_7_25: "double (7 / 25) = 5044031582654956 / 2 ^ 54"
proof -
  have "exponent (7 / 25) = - 2"
    by (simp add: exponent_def)
  moreover have "roundTiesToEven (7 / 25 / pow2 (- 2 - 52)) = 5044031582654956"
    by (simp add: roundTiesToEven_def Let_def pow2_def)
  ultimately have "double (7 / 25) = real_of_int 5044031582654956 * pow2 (- 2 - 52)"
    by (intro double_eval) simp_all
  then show ?thesis
    by (simp add: pow2_def)
qed

lemma double_28: "double (5044031582654956 / 2 ^ 54 * 100) = 28 + 1 / 2 ^ 48"
proof -
  have "exponent (5044031582654956 / 2 ^ 54 * 100) = 4"
    by (simp add: exponent_def)
  moreover have "roundTiesToEven (5044031582654956 / 2 ^ 54 * 100 / pow2 (4 - 52)) =
                   7881299347898369"
    by (simp add: roundTiesToEven_def Let_def pow2_def)
  ultimately have "double (5044031582654956 / 2 ^ 54 * 100) =
                     real_of_int 7881299347898369 * pow2 (4 - 52)"
    by (intro double_eval) simp_all
  then show ?thesis
    by (simp add: pow2_def)
qed

lemma double_7_25_100: "double (double (7 / 25) * 100) = 28 + 1 / 2 ^ 48"
  by (simp only: double_7_25 double_28)

lemma getNovelById_serving:
  "getNovelById (serving novel) novelId sent =
     (Inr novel,
      sent @ [\<lparr> verb = GET, url = baseUrl @ ''/scraper/novels/'' @ string_of_int novelId,
                 json_headers = True, params = None, body = None \<rparr>])"
  by (simp add: getNovelById_def ApiService_get_def Let_def subscribe_def serving_def)

text \<open>
  Claim C4, as stated: the completion percentage equals
  \<open>100 * processed_chapters / total_chapters\<close>. The source computes
  \<open>(processedChapters / totalChapters) * 100\<close> in doubles, with a rounding after the
  division and another after the multiplication: for 7 processed chapters of 25 the result
  is \<open>28 + 2^-48\<close> (printed as 28.000000000000004), not 28.
\<close>

theorem getProcessingStats_seven_of_25:
  "(case fst (getProcessingStats (serving saga) 8 ([] :: unit http_request list)) of
      Inr stats \<Rightarrow>
        totalChapters stats = 25 \<and> processedChapters stats = 7 \<and>
        completionPercentage stats = 28 + 1 / 2 ^ 48
    | Inl err \<Rightarrow> False) \<and>
   (28 + 1 / 2 ^ 48 :: real) \<noteq> 100 * 7 / 25"
  by (simp add: getProcessingStats_def getNovelById_serving Let_def saga_def chapter_of_def
      double_7_25_100)


lemma pow2_tiny: "pow2 (- 1022) \<le> 1 / 2 ^ 33"
proof -
  have "pow2 (- 1022) \<le> pow2 (- 33)"
    by (rule pow2_mono) simp
  then show ?thesis
    by (simp add: pow2_def)
qed

text \<open>
  The percentage of \<open>p\<close> in \<open>t\<close> as the source computes it, for \<open>0 < p \<le> t < 2^32\<close>.
\<close>

lemma percentage_bounds:
  fixes p t :: nat
  assumes "0 < p" and "p \<le> t" and "t < 2 ^ 32"
  defines "x \<equiv> real p / real t"
  shows "0 \<le> double (double x * 100)" and "double (double x * 100) \<le> 100"
    and "\<bar>double (double x * 100) - 100 * x\<bar> \<le> 100 * x / 2 ^ 51"
proof -
  from assms(1,2) have t: "0 < real t"
    by simp
  from assms(1,2) have x1: "x \<le> 1"
    by (simp add: x_def)
  have "1 / 2 ^ 32 \<le> 1 / real t"
    using assms(3) t by (simp add: field_simps)
  also have "\<dots> \<le> x"
    using assms(1) t by (simp add: x_def divide_right_mono)
  finally have xlow: "1 / 2 ^ 32 \<le> x" .
  then have x0: "0 < x"
    by (rule less_le_trans [rotated]) simp
  from xlow pow2_tiny have xn: "pow2 (- 1022) \<le> x"
    by simp
  define y where "y = double x"
  from x0 x1 have y1: "y \<le> 1"
    unfolding y_def using double_le_int [of x 1] by simp
  from double_error [OF xn] have yerr: "\<bar>y - x\<bar> \<le> x / 2 ^ 53"
    by (simp add: y_def)
  from x0 have "x / 2 ^ 53 \<le> x / 2"
    by simp
  with yerr have "\<bar>y - x\<bar> \<le> x / 2"
    by linarith
  then have ylow: "x / 2 \<le> y" and yup: "y \<le> 2 * x"
    by linarith+
  define z where "z = y * 100"
  from ylow x0 have z0: "0 < z"
    by (simp add: z_def)
  from y1 have z100: "z \<le> 100"
    by (simp add: z_def)
  from ylow xlow pow2_tiny have zn: "pow2 (- 1022) \<le> z"
    by (simp add: z_def)
  from z0 show "0 \<le> double (double x * 100)"
    unfolding y_def [symmetric] z_def [symmetric] by (simp add: double_nonneg)
  from z0 z100 show "double (double x * 100) \<le> 100"
    unfolding y_def [symmetric] z_def [symmetric] using double_le_int [of z 100] by simp
  from double_error [OF zn] have zerr: "\<bar>double z - z\<bar> \<le> z / 2 ^ 53" .
  have "\<bar>z - 100 * x\<bar> = 100 * \<bar>y - x\<bar>"
    by (simp add: z_def abs_if)
  with yerr have zx: "\<bar>z - 100 * x\<bar> \<le> 100 * x / 2 ^ 53"
    by simp
  from yup have "z \<le> 200 * x"
    by (simp add: z_def)
  then have "z / 2 ^ 53 \<le> 200 * x / 2 ^ 53"
    by (simp add: divide_right_mono)
  with zerr have zz: "\<bar>double z - z\<bar> \<le> 200 * x / 2 ^ 53"
    by linarith
  have "\<bar>double z - 100 * x\<bar> \<le> \<bar>double z - z\<bar> + \<bar>z - 100 * x\<bar>"
    by linarith
  also from zz zx have "\<dots> \<le> 200 * x / 2 ^ 53 + 100 * x / 2 ^ 53"
    by linarith
  also from x0 have "\<dots> \<le> 100 * x / 2 ^ 51"
    by simp
  finally show "\<bar>double (double x * 100) - 100 * x\<bar> \<le> 100 * x / 2 ^ 51"
    by (simp add: y_def z_def)
qed

text \<open>
  Claim C4, amended. For a novel with \<open>totalChapters\<close> chapters (fewer than \<open>2^32\<close>,
  as every array has) of which \<open>processedChapters\<close> are processed, the completion
  percentage \<open>getProcessingStats\<close> delivers is 0 for a novel without chapters, lies
  between 0 and 100, and is \<open>100 * processedChapters / totalChapters\<close> up to the two
  roundings: the relative error is at most \<open>2^-51\<close>. It is exactly 0 when no chapter is
  processed and exactly 100 when all are.
\<close>

theorem getProcessingStats_completion:
  assumes "getNovelById backend novelId sent = (Inr novel, sent1)"
    and "length (chapters novel) < 2 ^ 32"
  shows "\<exists>stats. getProcessingStats backend novelId sent = (Inr stats, sent1) \<and>
           totalChapters stats = length (chapters novel) \<and>
           processedChapters stats = length (filter is_processed (chapters novel)) \<and>
           (totalChapters stats = 0 \<longrightarrow> completionPercentage stats = 0) \<and>
           0 \<le> completionPercentage stats \<and> completionPercentage stats \<le> 100 \<and>
           (0 < totalChapters stats \<longrightarrow>
              \<bar>completionPercentage stats -
                 100 * real (processedChapters stats) / real (totalChapters stats)\<bar>
              \<le> 100 * real (processedChapters stats) / real (totalChapters stats) / 2 ^ 51) \<and>
           (processedChapters stats = 0 \<longrightarrow> completionPercentage stats = 0) \<and>
           (0 < totalChapters stats \<and> processedChapters stats = totalChapters stats \<longrightarrow>
              completionPercentage stats = 100)"
proof -
  let ?t = "length (chapters novel)"
  let ?p = "length (filter is_processed (chapters novel))"
  let ?c = "if ?t > 0 then double (double (real ?p / real ?t) * 100) else 0"
  define stats where "stats =
     \<lparr> totalChapters = ?t, processedChapters = ?p, completionPercentage = ?c,
       averageWordCount =
         (if ?t > 0
          then double
                 (foldl (\<lambda>sum ch. double (sum + real_of_int (word_count ch))) 0 (chapters novel) /
                  real ?t)
          else 0) \<rparr>"
  from assms(1) have run: "getProcessingStats backend novelId sent = (Inr stats, sent1)"
    by (simp add: getProcessingStats_def Let_def stats_def)
  have fields: "totalChapters stats = ?t" "processedChapters stats = ?p"
    "completionPercentage stats = ?c"
    by (simp_all add: stats_def)
  have le: "?p \<le> ?t"
    by (rule length_filter_le)
  have zero: "?c = 0" if "?p = 0"
    using that by (simp add: double_0)
  have full: "?c = 100" if "0 < ?t" "?p = ?t"
    using that by (simp add: double_1 double_100)
  have range: "0 \<le> ?c \<and> ?c \<le> 100 \<and>
      (0 < ?t \<longrightarrow> \<bar>?c - 100 * real ?p / real ?t\<bar> \<le> 100 * real ?p / real ?t / 2 ^ 51)"
  proof (cases "?p = 0")
    case True
    then show ?thesis
      by (simp add: double_0)
  next
    case False
    then have p: "0 < ?p"
      by simp
    from p le have t: "0 < ?t"
      by (rule less_le_trans)
    from percentage_bounds [OF p le assms(2)] t show ?thesis
      by simp
  qed
  from run fields zero full range show ?thesis
    by (intro exI [of _ stats]) simp
qed


lemma double_quarter: "double (double (1 / 4) * 100) = 25"
proof -
  have "exponent (1 / 4) = - 2"
    by (simp add: exponent_def)
  moreover have "roundTiesToEven (1 / 4 / pow2 (- 2 - 52)) = 2 ^ 52"
    by (simp add: roundTiesToEven_def Let_def pow2_def)
  ultimately have "double (1 / 4) = real_of_int (2 ^ 52) * pow2 (- 2 - 52)"
    by (intro double_eval) simp_all
  then have quarter: "double (1 / 4) = 1 / 4"
    by (simp add: pow2_def)
  have "exponent 25 = 4"
    by (simp add: exponent_def)
  moreover have "roundTiesToEven (25 / pow2 (4 - 52)) = 25 * 2 ^ 48"
    by (simp add: roundTiesToEven_def Let_def pow2_def)
  ultimately have "double 25 = real_of_int (25 * 2 ^ 48) * pow2 (4 - 52)"
    by (intro double_eval) simp_all
  then have "double 25 = 25"
    by (simp add: pow2_def)
  then show ?thesis
    unfolding quarter by simp
qed

lemma completionPercentage_serving:
  assumes "fst (getProcessingStats (serving novel) novelId sent) = Inr stats"
  shows "completionPercentage stats =
           (if 0 < length (chapters novel)
            then double (double (real (length (filter is_processed (chapters novel))) /
                                 real (length (chapters novel))) * 100)
            else 0)"
  using assms by (auto simp: getProcessingStats_def getNovelById_serving Let_def)

text \<open>
  One chapter of four, a novel without chapters, and a novel whose one chapter is
  processed.
\<close>

theorem getProcessingStats_examples:
  "(case fst (getProcessingStats (serving abyss) 7 ([] :: unit http_request list)) of
      Inr stats \<Rightarrow>
        totalChapters stats = 4 \<and> processedChapters stats = 1 \<and>
        completionPercentage stats = 25
    | Inl err \<Rightarrow> False) \<and>
   (case fst (getProcessingStats (serving (novel_with [])) 9 ([] :: unit http_request list)) of
      Inr stats \<Rightarrow> totalChapters stats = 0 \<and> completionPercentage stats = 0
    | Inl err \<Rightarrow> False) \<and>
   (case fst (getProcessingStats (serving (novel_with [chapter_of 1 True])) 9
               ([] :: unit http_request list)) of
      Inr stats \<Rightarrow> totalChapters stats = 1 \<and> completionPercentage stats = 100
    | Inl err \<Rightarrow> False)"
proof -
  have abyss: "length (chapters abyss) = 4" "length (filter is_processed (chapters abyss)) = 1"
    by (simp_all add: abyss_def chapter_of_def)
  have none: "length (chapters (novel_with [])) = 0"
    by (simp add: novel_with_def)
  have single: "length (chapters (novel_with [chapter_of 1 True])) = 1"
    "length (filter is_processed (chapters (novel_with [chapter_of 1 True]))) = 1"
    by (simp_all add: novel_with_def chapter_of_def)
  have small: "length (chapters abyss) < 2 ^ 32" "length (chapters (novel_with [])) < 2 ^ 32"
    "length (chapters (novel_with [chapter_of 1 True])) < 2 ^ 32"
    unfolding abyss none single by simp_all
  from getProcessingStats_completion [OF getNovelById_serving small(1), of 7 "[] :: unit http_request list"]
  obtain s1 r1 where s1:
    "getProcessingStats (serving abyss) 7 ([] :: unit http_request list) = (Inr s1, r1)"
    "totalChapters s1 = length (chapters abyss)"
    "processedChapters s1 = length (filter is_processed (chapters abyss))"
    by (elim exE conjE) (rule that, assumption+)
  then have f1: "fst (getProcessingStats (serving abyss) 7 ([] :: unit http_request list)) = Inr s1"
    by simp
  from completionPercentage_serving [OF f1] have "completionPercentage s1 = 25"
    unfolding abyss by (simp add: double_quarter)
  with s1 have one:
    "case fst (getProcessingStats (serving abyss) 7 ([] :: unit http_request list)) of
       Inr stats \<Rightarrow>
         totalChapters stats = 4 \<and> processedChapters stats = 1 \<and>
         completionPercentage stats = 25
     | Inl err \<Rightarrow> False"
    by (simp add: abyss)
  from getProcessingStats_completion [OF getNovelById_serving small(2), of 9 "[] :: unit http_request list"]
  obtain s2 r2 where
    "getProcessingStats (serving (novel_with [])) 9 ([] :: unit http_request list) = (Inr s2, r2)"
    "totalChapters s2 = length (chapters (novel_with []))"
    "totalChapters s2 = 0 \<longrightarrow> completionPercentage s2 = 0"
    by (elim exE conjE) (rule that, assumption+)
  then have two:
    "case fst (getProcessingStats (serving (novel_with [])) 9 ([] :: unit http_request list)) of
       Inr stats \<Rightarrow> totalChapters stats = 0 \<and> completionPercentage stats = 0
     | Inl err \<Rightarrow> False"
    by (simp add: none)
  from getProcessingStats_completion [OF getNovelById_serving small(3), of 9 "[] :: unit http_request list"]
  obtain s3 r3 where
    "getProcessingStats (serving (novel_with [chapter_of 1 True])) 9
       ([] :: unit http_request list) = (Inr s3, r3)"
    "totalChapters s3 = length (chapters (novel_with [chapter_of 1 True]))"
    "processedChapters s3 =
       length (filter is_processed (chapters (novel_with [chapter_of 1 True])))"
    "0 < totalChapters s3 \<and> processedChapters s3 = totalChapters s3 \<longrightarrow>
       completionPercentage s3 = 100"
    by (elim exE conjE) (rule that, assumption+)
  then have three:
    "case fst (getProcessingStats (serving (novel_with [chapter_of 1 True])) 9
                ([] :: unit http_request list)) of
       Inr stats \<Rightarrow> totalChapters stats = 1 \<and> completionPercentage stats = 100
     | Inl err \<Rightarrow> False"
    by (simp add: single)
  from one two three show ?thesis
    by simp
qed

section \<open>Properties of the RefinementResult interface\<close>

lemma is_string_Some: "is_string v \<longleftrightarrow> (\<exists>s. v = Some (JString s))"
  by (auto simp: is_string_def split: option.splits json.splits)

lemma is_number_Some: "is_number v \<longleftrightarrow> (\<exists>x. v = Some (JNumber x))"
  by (auto simp: is_number_def split: option.splits json.splits)

lemma is_Change_iff:
  "is_Change c \<longleftrightarrow>
     (\<exists>gs ty d. c = JObject gs \<and> map_of gs ''type'' = Some (JString ty) \<and>
        map_of gs ''description'' = Some (JString d))"
  by (cases c) (auto simp: is_Change_def is_string_Some)

lemma is_RefinementResult_iff:
  "is_RefinementResult j \<longleftrightarrow>
     (\<exists>fs original refined changes confidence time.
        j = JObject fs \<and>
        map_of fs ''original_text'' = Some (JString original) \<and>
        map_of fs ''refined_text'' = Some (JString refined) \<and>
        map_of fs ''changes_made'' = Some (JArray changes) \<and>
        (\<forall>c\<in>set changes. is_Change c) \<and>
        map_of fs ''confidence_score'' = Some (JNumber confidence) \<and>
        map_of fs ''processing_time'' = Some (JNumber time))"
proof (cases j)
  case (JObject fs)
  have changes: "(case map_of fs ''changes_made'' of
             Some (JArray cs) \<Rightarrow> list_all is_Change cs
           | _ \<Rightarrow> False) \<longleftrightarrow>
         (\<exists>changes. map_of fs ''changes_made'' = Some (JArray changes) \<and>
            (\<forall>c\<in>set changes. is_Change c))"
    by (simp add: list_all_iff split: option.splits json.splits)
  show ?thesis
    unfolding JObject is_RefinementResult_def json.case changes is_string_Some is_number_Some
    by blast
qed (simp_all add: is_RefinementResult_def)

text \<open>
  Claim C7, as stated: every RefinementResult at the external interface consists of
  \<open>original_text\<close>, \<open>refined_text\<close>, \<open>changes\<close>, a \<open>confidence_score\<close> in [0,1] and
  \<open>processing_time\<close>, under exactly these names. The interface names the list
  \<open>changes_made\<close>: a value of the interface need not have the shape the claim gives.
\<close>

theorem RefinementResult_not_spec_shape:
  "is_RefinementResult example_result \<and> \<not> spec_RefinementResult example_result"
  by (simp add: is_RefinementResult_def spec_RefinementResult_def example_result_def
      example_fields_def example_changes_def is_Change_def is_string_def is_number_def)

text \<open>
  Claim C7, amended. Every RefinementResult at the external interface has the fields
  \<open>original_text\<close> and \<open>refined_text\<close> (strings), \<open>changes_made\<close> (a list of Change
  records, each with a \<open>type\<close> and a \<open>description\<close>), \<open>confidence_score\<close> and
  \<open>processing_time\<close> (numbers). The interface does not bound the confidence score; for a
  score in [0,1] the value has the shape of the claim once its list is also given the
  name \<open>changes\<close>.
\<close>

theorem RefinementResult_fields:
  assumes "is_RefinementResult j"
  shows "\<exists>fs original refined changes confidence time.
           j = JObject fs \<and>
           map_of fs ''original_text'' = Some (JString original) \<and>
           map_of fs ''refined_text'' = Some (JString refined) \<and>
           map_of fs ''changes_made'' = Some (JArray changes) \<and>
           (\<forall>c\<in>set changes. \<exists>gs ty d.
              c = JObject gs \<and> map_of gs ''type'' = Some (JString ty) \<and>
              map_of gs ''description'' = Some (JString d)) \<and>
           map_of fs ''confidence_score'' = Some (JNumber confidence) \<and>
           map_of fs ''processing_time'' = Some (JNumber time) \<and>
           (0 \<le> confidence \<and> confidence \<le> 1 \<longrightarrow>
              spec_RefinementResult (JObject ((''changes'', JArray changes) # fs)))"
proof -
  from assms obtain fs original refined changes confidence time where
    j: "j = JObject fs" and
    o: "map_of fs ''original_text'' = Some (JString original)" and
    r: "map_of fs ''refined_text'' = Some (JString refined)" and
    c: "map_of fs ''changes_made'' = Some (JArray changes)" and
    cs: "\<forall>c\<in>set changes. is_Change c" and
    s: "map_of fs ''confidence_score'' = Some (JNumber confidence)" and
    t: "map_of fs ''processing_time'' = Some (JNumber time)"
    unfolding is_RefinementResult_iff by blast
  have spec: "spec_RefinementResult (JObject ((''changes'', JArray changes) # fs))"
    if "0 \<le> confidence \<and> confidence \<le> 1"
    using that o r cs s t
    by (simp add: spec_RefinementResult_def is_string_def is_number_def list_all_iff)
  from cs have "\<forall>c\<in>set changes. \<exists>gs ty d.
              c = JObject gs \<and> map_of gs ''type'' = Some (JString ty) \<and>
              map_of gs ''description'' = Some (JString d)"
    by (simp add: is_Change_iff)
  with j o r c s t spec show ?thesis
    by blast
qed

text \<open>The example result, whose confidence score is 0.9.\<close>

theorem RefinementResult_fields_example:
  "is_RefinementResult example_result \<and>
   spec_RefinementResult (JObject ((''changes'', JArray example_changes) # example_fields))"
proof -
  have ex: "is_RefinementResult example_result"
    by (simp add: is_RefinementResult_def example_result_def example_fields_def
        example_changes_def is_Change_def is_string_def is_number_def)
  from RefinementResult_fields [OF ex]
  obtain fs changes confidence where
    j: "example_result = JObject fs" and
    c: "map_of fs ''changes_made'' = Some (JArray changes)" and
    s: "map_of fs ''confidence_score'' = Some (JNumber confidence)" and
    spec: "0 \<le> confidence \<and> confidence \<le> 1 \<longrightarrow>
              spec_RefinementResult (JObject ((''changes'', JArray changes) # fs))"
    by blast
  from j have fs: "fs = example_fields"
    by (simp add: example_result_def)
  from c s have "changes = example_changes" and "confidence = 0.9"
    unfolding fs by (simp_all add: example_fields_def)
  with spec fs ex show ?thesis
    by simp
qed

section \<open>Properties of sorting and slicing\<close>

lemma set_insert_sorted: "set (insert_sorted c x ys) = insert x (set ys)"
  by (induction ys) auto

lemma length_insert_sorted: "length (insert_sorted c x ys) = Suc (length ys)"
  by (induction ys) auto

lemma Array_sort_Cons: "Array_sort c (x # xs) = insert_sorted c x (Array_sort c xs)"
  by (simp add: Array_sort_def)

lemma Array_sort_Nil: "Array_sort c [] = []"
  by (simp add: Array_sort_def)

lemma length_Array_sort: "length (Array_sort c xs) = length xs"
  by (induction xs) (simp_all add: Array_sort_Nil Array_sort_Cons length_insert_sorted)

lemma set_Array_sort: "set (Array_sort c xs) = set xs"
  by (induction xs) (simp_all add: Array_sort_Nil Array_sort_Cons set_insert_sorted)

text \<open>The comparator \<open>(a, b) => f(b) - f(a)\<close> sorts by descending \<open>f\<close>.\<close>

lemma sorted_insert_sorted:
  fixes f :: "'a \<Rightarrow> int"
  assumes "sorted_wrt (\<lambda>a b. f b \<le> f a) ys"
  shows "sorted_wrt (\<lambda>a b. f b \<le> f a) (insert_sorted (\<lambda>a b. f b - f a) x ys)"
  using assms
proof (induction ys)
  case Nil
  then show ?case by simp
next
  case (Cons y ys)
  show ?case
  proof (cases "f y \<le> f x")
    case True
    with Cons.prems show ?thesis by auto
  next
    case False
    with Cons show ?thesis by (auto simp: set_insert_sorted)
  qed
qed

lemma sorted_Array_sort:
  fixes f :: "'a \<Rightarrow> int"
  shows "sorted_wrt (\<lambda>a b. f b \<le> f a) (Array_sort (\<lambda>a b. f b - f a) xs)"
  by (induction xs) (simp_all add: Array_sort_Nil Array_sort_Cons sorted_insert_sorted)

text \<open>Elements with the same \<open>f\<close> keep their order.\<close>

lemma filter_insert_sorted:
  fixes f :: "'a \<Rightarrow> int"
  shows "filter (\<lambda>t. f t = k) (insert_sorted (\<lambda>a b. f b - f a) x ys) =
         filter (\<lambda>t. f t = k) (x # ys)"
  by (induction ys) auto

lemma filter_Array_sort:
  fixes f :: "'a \<Rightarrow> int"
  shows "filter (\<lambda>t. f t = k) (Array_sort (\<lambda>a b. f b - f a) xs) = filter (\<lambda>t. f t = k) xs"
  by (induction xs) (simp_all add: Array_sort_Nil Array_sort_Cons filter_insert_sorted)

text \<open>An array that is in order already is left as it is.\<close>

lemma Array_sort_sorted:
  assumes "sorted_wrt (\<lambda>a b. c a b \<le> 0) xs"
  shows "Array_sort c xs = xs"
  using assms
proof (induction xs)
  case Nil
  then show ?case by (simp add: Array_sort_Nil)
next
  case (Cons x xs)
  then have "Array_sort c (x # xs) = insert_sorted c x xs"
    by (simp add: Array_sort_Cons)
  also from Cons.prems have "\<dots> = x # xs"
    by (cases xs) simp_all
  finally show ?case .
qed

lemma Array_slice_0: "0 \<le> limit \<Longrightarrow> Array_slice 0 limit xs = take (nat limit) xs"
  by (simp add: Array_slice_def relative_index_def Let_def min_def)

lemma sorted_wrt_take: "sorted_wrt P xs \<Longrightarrow> sorted_wrt P (take n xs)"
  by (metis append_take_drop_id sorted_wrt_append)

section \<open>Properties of GlossaryService.getFrequentTerms\<close>

text \<open>
  Claim C6, as stated: for every limit, the frequent terms are at most \<open>limit\<close> in
  number. \<open>slice(0, limit)\<close> counts a negative limit from the end of the array: with
  the limit -1 and three terms in the glossary, two terms are returned.
\<close>

theorem getFrequentTerms_more_than_limit:
  "fst (getFrequentTerms glossary 7 (Some (- 1)) ([] :: unit http_request list)) =
     Inr [Kael, Elyra] \<and>
   \<not> int (length [Kael, Elyra]) \<le> - 1"
  by (simp add: getFrequentTerms_def getTerms_def ApiService_get_def Let_def subscribe_def
      glossary_def Array_sort_def Array_slice_def relative_index_def Kael_def Elyra_def Mira_def)

text \<open>
  Claim C6, amended. For every limit that is not negative (20 when none is given), the
  terms \<open>getFrequentTerms\<close> delivers are at most \<open>limit\<close> in number and in order of
  descending frequency. Terms
  of equal frequency keep the order in which \<open>getTerms\<close> delivered them; so when
  \<open>getTerms\<close> delivers its terms by descending frequency and then term id, as the
  specification has the glossary return them, ties are in the order of the term ids.
\<close>

theorem getFrequentTerms_ordered:
  fixes limit :: "int option"
  defines "n \<equiv> case limit of None \<Rightarrow> 20 | Some n \<Rightarrow> n"
  assumes "getTerms backend novelId None True sent = (Inr terms, sent1)" and "0 \<le> n"
  shows "\<exists>sortedTerms.
           getFrequentTerms backend novelId limit sent = (Inr sortedTerms, sent1) \<and>
           sorted_wrt (\<lambda>a b. frequency b \<le> frequency a) sortedTerms \<and>
           int (length sortedTerms) \<le> n \<and>
           (\<forall>k. \<exists>rest. filter (\<lambda>t. frequency t = k) terms =
                          filter (\<lambda>t. frequency t = k) sortedTerms @ rest) \<and>
           (sorted_wrt by_frequency_then_id terms \<longrightarrow>
              sorted_wrt by_frequency_then_id sortedTerms)"
proof -
  let ?c = "\<lambda>a b. frequency b - frequency a"
  let ?sorted = "Array_sort ?c terms"
  let ?out = "take (nat n) ?sorted"
  from assms have run: "getFrequentTerms backend novelId limit sent = (Inr ?out, sent1)"
    by (simp add: getFrequentTerms_def Array_slice_0)
  have desc: "sorted_wrt (\<lambda>a b. frequency b \<le> frequency a) ?out"
    by (intro sorted_wrt_take sorted_Array_sort)
  from \<open>0 \<le> n\<close> have len: "int (length ?out) \<le> n"
    by simp
  have stable: "\<exists>rest. filter (\<lambda>t. frequency t = k) terms =
                  filter (\<lambda>t. frequency t = k) ?out @ rest" for k
  proof -
    have "filter (\<lambda>t. frequency t = k) terms = filter (\<lambda>t. frequency t = k) ?sorted"
      by (simp add: filter_Array_sort)
    also have "\<dots> = filter (\<lambda>t. frequency t = k) (?out @ drop (nat n) ?sorted)"
      by simp
    finally show ?thesis
      by (simp del: append_take_drop_id)
  qed
  have ties: "sorted_wrt by_frequency_then_id ?out" if ord: "sorted_wrt by_frequency_then_id terms"
  proof -
    from ord have "sorted_wrt (\<lambda>a b. ?c a b \<le> 0) terms"
      by (rule sorted_wrt_mono_rel [rotated]) (auto simp: by_frequency_then_id_def)
    then have "?sorted = terms"
      by (rule Array_sort_sorted)
    with ord show ?thesis
      by (simp add: sorted_wrt_take)
  qed
  from run desc len stable ties show ?thesis
    by blast
qed

text \<open>The two most frequent of the three terms of the example glossary.\<close>

theorem getFrequentTerms_two_of_three:
  "fst (getFrequentTerms glossary 7 (Some 2) ([] :: unit http_request list)) =
     Inr [Kael, Elyra] \<and>
   sorted_wrt by_frequency_then_id [Kael, Elyra] \<and>
   int (length [Kael, Elyra]) \<le> 2"
proof -
  have terms: "getTerms glossary 7 None True ([] :: unit http_request list) =
          (Inr [Kael, Elyra, Mira],
           [\<lparr> verb = GET, url = ''http://localhost:8000/api/glossary/terms/7'',
               json_headers = True, params = Some [(''active_only'', JBool True)],
               body = None \<rparr>])"
    by (simp add: getTerms_def ApiService_get_def Let_def subscribe_def glossary_def
        baseUrl_def string_of_int_def digit_char_def)
  have ord: "sorted_wrt by_frequency_then_id [Kael, Elyra, Mira]"
    by (simp add: by_frequency_then_id_def Kael_def Elyra_def Mira_def)
  from getFrequentTerms_ordered [OF terms, of "Some 2"] ord
  obtain sortedTerms where
    run: "fst (getFrequentTerms glossary 7 (Some 2) ([] :: unit http_request list)) =
            Inr sortedTerms" and
    len: "int (length sortedTerms) \<le> 2" and
    ties: "sorted_wrt by_frequency_then_id sortedTerms"
    by auto
  have "fst (getFrequentTerms glossary 7 (Some 2) ([] :: unit http_request list)) =
          Inr [Kael, Elyra]"
    by (simp add: getFrequentTerms_def terms Array_sort_def Array_slice_def relative_index_def
        Kael_def Elyra_def Mira_def)
  with run have "sortedTerms = [Kael, Elyra]"
    by simp
  with run len ties show ?thesis
    by simp
qed


section \<open>Properties of GlossaryService.getTermStatistics\<close>

lemma getTerms_all:
  "getTerms builders 7 None False ([] :: unit http_request list) =
     (Inr [Builder],
      [\<lparr> verb = GET, url = ''http://localhost:8000/api/glossary/terms/7'',
          json_headers = True, params = Some [(''active_only'', JBool False)],
          body = None \<rparr>])"
  by (simp add: getTerms_def ApiService_get_def Let_def subscribe_def builders_def
      baseUrl_def string_of_int_def digit_char_def)

lemma constructor_inherited: "js ''constructor'' \<in> set Object_prototype_keys"
  by (simp add: Object_prototype_keys_def)

lemma constructor_not_proto: "js ''constructor'' \<noteq> js ''__proto__''"
  by (simp add: js_def)

text \<open>
  Claim C9 says that the counts in \<open>typeBreakdown\<close> sum to \<open>totalTerms\<close>. For a
  glossary whose one term has the type \<open>constructor\<close>, \<open>typeStats["constructor"]\<close>
  reads the function inherited from \<open>Object.prototype\<close>, and the entry stored for the
  type is a string, not the count 1.
\<close>

theorem getTermStatistics_constructor:
  "\<exists>stats. fst (getTermStatistics builders 7 ([] :: unit http_request list)) = Inr stats \<and>
     totalTerms stats = 1 \<and>
     typeBreakdown stats (js ''constructor'') = Some Str \<and>
     dom (typeBreakdown stats) = {js ''constructor''}"
  by (simp add: getTermStatistics_def getTerms_all Let_def count_type_def get_property_def
      or_zero_plus_one_def set_property_def constructor_inherited constructor_not_proto
      Builder_def)

lemma most_frequent:
  fixes f :: "'a \<Rightarrow> int"
  defines "m \<equiv> \<lambda>t0 ts. foldl (\<lambda>max t. if f t > f max then t else max) t0 ts"
  shows "m t0 ts \<in> set (t0 # ts) \<and> (\<forall>t\<in>set (t0 # ts). f t \<le> f (m t0 ts))"
  unfolding m_def
proof (induction ts arbitrary: t0)
  case Nil
  then show ?case by simp
next
  case (Cons t ts)
  show ?case
  proof (cases "f t > f t0")
    case True
    with Cons [of t] show ?thesis by force
  next
    case False
    with Cons [of t0] show ?thesis by force
  qed
qed

lemma count_types:
  assumes "\<forall>t\<in>set terms. GlossaryTerm.term_type t \<notin> set Object_prototype_keys"
    and "\<forall>k. typeStats k = (if k \<in> set ks then Some (Num (count_list ks k)) else None)"
  shows "foldl count_type typeStats terms k =
           (if k \<in> set (ks @ map GlossaryTerm.term_type terms)
            then Some (Num (count_list (ks @ map GlossaryTerm.term_type terms) k)) else None)"
  using assms
proof (induction terms arbitrary: typeStats ks)
  case Nil
  then show ?case by simp
next
  case (Cons t terms)
  let ?ty = "GlossaryTerm.term_type t"
  from Cons.prems(1) have own: "?ty \<notin> set Object_prototype_keys"
    by simp
  then have "?ty \<noteq> js ''__proto__''"
    by (auto simp: Object_prototype_keys_def)
  with own Cons.prems(2)
  have step: "\<forall>k. count_type typeStats t k =
                (if k \<in> set (ks @ [?ty]) then Some (Num (count_list (ks @ [?ty]) k)) else None)"
    by (auto simp: count_type_def set_property_def get_property_def or_zero_plus_one_def)
  from Cons.prems(1) have "\<forall>t\<in>set terms. GlossaryTerm.term_type t \<notin> set Object_prototype_keys"
    by simp
  from Cons.IH [OF this step] show ?case
    by simp
qed

text \<open>
  Apart from that, the counts are what their names say: the active and the inactive
  terms add up to all terms, the most frequent term is a term of greatest frequency, and, when no term type is the name of a property of
  \<open>Object.prototype\<close>, the entries of \<open>typeBreakdown\<close> count the terms of each
  type and sum to the number of terms.
\<close>

lemma getTermStatistics_statistics:
  assumes "getTerms backend novelId None False sent = (Inr terms, sent1)"
  shows "\<exists>stats. getTermStatistics backend novelId sent = (Inr stats, sent1) \<and>
     totalTerms stats = length terms \<and>
     activeTerms stats + inactiveTerms stats = totalTerms stats \<and>
     (terms = [] \<longrightarrow> mostFrequentTerm stats = None) \<and>
     (terms \<noteq> [] \<longrightarrow>
        (\<exists>m\<in>set terms. mostFrequentTerm stats = Some m \<and>
           (\<forall>t\<in>set terms. frequency t \<le> frequency m))) \<and>
     ((\<forall>t\<in>set terms. GlossaryTerm.term_type t \<notin> set Object_prototype_keys) \<longrightarrow>
        dom (typeBreakdown stats) = GlossaryTerm.term_type ` set terms \<and>
        (\<forall>k\<in>dom (typeBreakdown stats).
           typeBreakdown stats k =
             Some (Num (count_list (map GlossaryTerm.term_type terms) k))) \<and>
        (\<Sum>k\<in>dom (typeBreakdown stats).
           case typeBreakdown stats k of Some (Num n) \<Rightarrow> n | _ \<Rightarrow> 0) = length terms)"
proof -
  let ?tb = "foldl count_type Map.empty terms"
  let ?tys = "map GlossaryTerm.term_type terms"
  define stats where "stats =
     \<lparr> totalTerms = length terms,
       activeTerms = length (filter (\<lambda>t. is_active t) terms),
       inactiveTerms = length (filter (\<lambda>t. \<not> is_active t) terms),
       typeBreakdown = ?tb,
       averageFrequency =
         (if length terms > 0
          then double
                 (foldl (\<lambda>sum t. double (sum + real_of_int (frequency t))) 0 terms /
                  real (length terms))
          else 0),
       mostFrequentTerm =
         (case terms of
            [] \<Rightarrow> None
          | t0 # ts \<Rightarrow>
              Some (foldl (\<lambda>max t. if frequency t > frequency max then t else max) t0 ts)) \<rparr>"
  from assms have run: "getTermStatistics backend novelId sent = (Inr stats, sent1)"
    by (simp add: getTermStatistics_def Let_def stats_def)
  have total: "totalTerms stats = length terms"
    and active: "activeTerms stats = length (filter is_active terms)"
    and inactive: "inactiveTerms stats = length (filter (\<lambda>t. \<not> is_active t) terms)"
    and tb: "typeBreakdown stats = ?tb"
    and most: "mostFrequentTerm stats =
       (case terms of [] \<Rightarrow> None
        | t0 # ts \<Rightarrow> Some (foldl (\<lambda>max t. if frequency t > frequency max then t else max) t0 ts))"
    by (simp_all add: stats_def)
  have part: "activeTerms stats + inactiveTerms stats = totalTerms stats"
    unfolding total active inactive by (rule sum_length_filter_compl)
  have none: "terms = [] \<longrightarrow> mostFrequentTerm stats = None"
    unfolding most by simp
  have some: "\<exists>m\<in>set terms. mostFrequentTerm stats = Some m \<and>
           (\<forall>t\<in>set terms. frequency t \<le> frequency m)" if "terms \<noteq> []"
  proof -
    from that obtain t0 ts where terms: "terms = t0 # ts"
      by (cases terms) auto
    from most_frequent [of frequency t0 ts] show ?thesis
      unfolding most terms by simp
  qed
  have types: "dom (typeBreakdown stats) = GlossaryTerm.term_type ` set terms \<and>
        (\<forall>k\<in>dom (typeBreakdown stats).
           typeBreakdown stats k = Some (Num (count_list ?tys k))) \<and>
        (\<Sum>k\<in>dom (typeBreakdown stats).
           case typeBreakdown stats k of Some (Num n) \<Rightarrow> n | _ \<Rightarrow> 0) = length terms"
    if own: "\<forall>t\<in>set terms. GlossaryTerm.term_type t \<notin> set Object_prototype_keys"
  proof -
    have "?tb k = (if k \<in> set ([] @ ?tys) then Some (Num (count_list ([] @ ?tys) k)) else None)"
      for k
      by (rule count_types [OF own]) simp
    then have counts: "?tb k = (if k \<in> set ?tys then Some (Num (count_list ?tys k)) else None)"
      for k
      by simp
    then have d: "dom ?tb = set ?tys"
      by (auto simp: dom_def)
    have "(\<Sum>k\<in>dom ?tb. case ?tb k of Some (Num n) \<Rightarrow> n | _ \<Rightarrow> 0) =
            (\<Sum>k\<in>set ?tys. count_list ?tys k)"
      unfolding d by (rule sum.cong) (simp_all add: counts)
    also have "\<dots> = length ?tys"
      by (rule sum_count_set) simp_all
    finally show ?thesis
      unfolding tb using d counts by simp
  qed
  from run total part none some types show ?thesis
    by blast
qed

end
